theory Spec2Isabelle
  imports Complex_Main "HOL-Library.Word"
begin

unbundle bit_operations_syntax

chapter \<open>The security perimeter of 2GETPRO-v2: model\<close>

section \<open>Access control (security/access\_control/permissions.py)\<close>

subsection \<open>Roles, permissions and the role table\<close>

datatype Role = USER | MODERATOR | ADMIN | SUPER_ADMIN

datatype Permission =
    READ | WRITE | DELETE
  | MANAGE_USERS | BAN_USERS | VIEW_USER_DATA
  | MANAGE_SUBSCRIPTIONS | GRANT_SUBSCRIPTION
  | VIEW_PAYMENTS | MANAGE_PAYMENTS | REFUND_PAYMENTS
  | CREATE_PROMO | MANAGE_PROMO
  | MANAGE_ADS
  | VIEW_LOGS | MANAGE_SETTINGS | ACCESS_ADMIN_PANEL
  | SEND_BROADCAST
  | VIEW_STATISTICS | EXPORT_DATA

text \<open>\<^verbatim>\<open>Role(role_str)\<close>: the lookup of an enum member by its value; \<open>None\<close> stands for the
  \<^verbatim>\<open>ValueError\<close> Python raises on any other string.\<close>

definition Role_of_value :: "string \<Rightarrow> Role option" where
  "Role_of_value s =
     (if s = ''user'' then Some USER
      else if s = ''moderator'' then Some MODERATOR
      else if s = ''admin'' then Some ADMIN
      else if s = ''super_admin'' then Some SUPER_ADMIN
      else None)"

text \<open>\<^verbatim>\<open>set(Permission)\<close>: every member of the enum, in declaration order.\<close>

definition all_permissions :: "Permission list" where
  "all_permissions =
     [READ, WRITE, DELETE, MANAGE_USERS, BAN_USERS, VIEW_USER_DATA,
      MANAGE_SUBSCRIPTIONS, GRANT_SUBSCRIPTION, VIEW_PAYMENTS, MANAGE_PAYMENTS,
      REFUND_PAYMENTS, CREATE_PROMO, MANAGE_PROMO, MANAGE_ADS, VIEW_LOGS,
      MANAGE_SETTINGS, ACCESS_ADMIN_PANEL, SEND_BROADCAST, VIEW_STATISTICS, EXPORT_DATA]"

text \<open>The contents of the module-level table \<^verbatim>\<open>ROLE_PERMISSIONS\<close> when the module is loaded.\<close>

fun ROLE_PERMISSIONS_init :: "Role \<Rightarrow> Permission set" where
  "ROLE_PERMISSIONS_init USER = {READ}"
| "ROLE_PERMISSIONS_init MODERATOR =
     {READ, WRITE, VIEW_USER_DATA, VIEW_PAYMENTS, VIEW_STATISTICS, MANAGE_ADS}"
| "ROLE_PERMISSIONS_init ADMIN =
     {READ, WRITE, DELETE, MANAGE_USERS, BAN_USERS, VIEW_USER_DATA,
      MANAGE_SUBSCRIPTIONS, GRANT_SUBSCRIPTION, VIEW_PAYMENTS, MANAGE_PAYMENTS,
      CREATE_PROMO, MANAGE_PROMO, MANAGE_ADS, VIEW_LOGS, ACCESS_ADMIN_PANEL,
      SEND_BROADCAST, VIEW_STATISTICS}"
| "ROLE_PERMISSIONS_init SUPER_ADMIN = set all_permissions"

subsection \<open>The object store\<close>

text \<open>
  Python sets are mutable objects, and the checker stores references to them: the cache
  entry written by \<^verbatim>\<open>has_permission\<close> is the very set object held by \<^verbatim>\<open>ROLE_PERMISSIONS\<close>,
  while \<^verbatim>\<open>grant_permission\<close> and \<^verbatim>\<open>get_user_permissions\<close> store a \<^verbatim>\<open>.copy()\<close>. The model
  therefore keeps the sets in a store indexed by addresses. The four sets of the role table
  live at fixed addresses; \<open>next_addr\<close> is the next unused address.
\<close>

type_synonym addr = nat

fun ROLE_PERMISSIONS :: "Role \<Rightarrow> addr" where
  "ROLE_PERMISSIONS USER = 0"
| "ROLE_PERMISSIONS MODERATOR = 1"
| "ROLE_PERMISSIONS ADMIN = 2"
| "ROLE_PERMISSIONS SUPER_ADMIN = 3"

text \<open>
  The identity store behind \<^verbatim>\<open>db_session\<close>: the query
  \<^verbatim>\<open>select(User.role).where(User.telegram_id == user_id)\<close> either raises or yields the
  \<^verbatim>\<open>role\<close> column (possibly \<^verbatim>\<open>NULL\<close>) of every matching row.
\<close>

datatype query_result = QueryError | Rows "string option list"

type_synonym db_session = "int \<Rightarrow> query_result"

record PermissionChecker =
  db_session :: "db_session option"
  cache :: "int \<rightharpoonup> addr"
  heap :: "addr \<Rightarrow> Permission set"
  next_addr :: addr

text \<open>A freshly constructed checker in a freshly loaded module.\<close>

definition init_checker :: "db_session option \<Rightarrow> PermissionChecker" where
  "init_checker db =
     \<lparr> db_session = db,
       cache = Map.empty,
       heap = (\<lambda>a. if a = 0 then ROLE_PERMISSIONS_init USER
                   else if a = 1 then ROLE_PERMISSIONS_init MODERATOR
                   else if a = 2 then ROLE_PERMISSIONS_init ADMIN
                   else if a = 3 then ROLE_PERMISSIONS_init SUPER_ADMIN
                   else {}),
       next_addr = 4 \<rparr>"

text \<open>\<^verbatim>\<open>s.copy()\<close> and \<^verbatim>\<open>set()\<close>: a new object at the next unused address.\<close>

definition alloc :: "Permission set \<Rightarrow> PermissionChecker \<Rightarrow> addr \<times> PermissionChecker" where
  "alloc ps c =
     (next_addr c, c\<lparr> heap := (heap c)(next_addr c := ps), next_addr := Suc (next_addr c) \<rparr>)"

subsection \<open>The role lookup\<close>

text \<open>
  \<^verbatim>\<open>scalar_one_or_none()\<close> yields \<^verbatim>\<open>None\<close> on no row, the value on one row and raises
  \<^verbatim>\<open>MultipleResultsFound\<close> on more. Every exception (of the query, of
  \<^verbatim>\<open>scalar_one_or_none\<close>, of \<^verbatim>\<open>Role(role_str)\<close>) is caught by the \<^verbatim>\<open>except\<close> clause, which
  returns \<^verbatim>\<open>Role.USER\<close>.
\<close>

definition get_user_role :: "db_session option \<Rightarrow> int \<Rightarrow> Role option" where
  "get_user_role db user_id =
     (case db of
        None \<Rightarrow> Some USER
      | Some session \<Rightarrow>
          (case session user_id of
             QueryError \<Rightarrow> Some USER
           | Rows [] \<Rightarrow> Some USER
           | Rows [None] \<Rightarrow> Some USER
           | Rows [Some role_str] \<Rightarrow>
               (if role_str \<noteq> [] then
                  (case Role_of_value role_str of
                     Some role \<Rightarrow> Some role
                   | None \<Rightarrow> Some USER)
                else Some USER)
           | Rows (_ # _ # _) \<Rightarrow> Some USER))"

subsection \<open>The checker's operations\<close>

text \<open>\<^verbatim>\<open>ROLE_PERMISSIONS.get(role, set())\<close>: the table's own set object, or a new empty set
  when the role is not a key of the table.\<close>

definition ROLE_PERMISSIONS_get :: "Role option \<Rightarrow> PermissionChecker \<Rightarrow> addr \<times> PermissionChecker" where
  "ROLE_PERMISSIONS_get role c =
     (case role of Some r \<Rightarrow> (ROLE_PERMISSIONS r, c) | None \<Rightarrow> alloc {} c)"

definition has_permission ::
  "PermissionChecker \<Rightarrow> int \<Rightarrow> Permission \<Rightarrow> bool \<Rightarrow> bool \<times> PermissionChecker" where
  "has_permission c user_id permission use_cache =
     (case (if use_cache then cache c user_id else None) of
        Some a \<Rightarrow> (permission \<in> heap c a, c)
      | None \<Rightarrow>
          (case get_user_role (db_session c) user_id of
             None \<Rightarrow> (False, c)
           | Some role \<Rightarrow>
               (let (permissions, c1) = ROLE_PERMISSIONS_get (Some role) c;
                    c2 = (if use_cache then c1\<lparr> cache := (cache c1)(user_id \<mapsto> permissions) \<rparr>
                          else c1)
                in (permission \<in> heap c2 permissions, c2))))"

definition has_role :: "PermissionChecker \<Rightarrow> int \<Rightarrow> Role \<Rightarrow> bool" where
  "has_role c user_id role = (get_user_role (db_session c) user_id = Some role)"

definition has_any_role :: "PermissionChecker \<Rightarrow> int \<Rightarrow> Role set \<Rightarrow> bool" where
  "has_any_role c user_id roles =
     (case get_user_role (db_session c) user_id of None \<Rightarrow> False | Some r \<Rightarrow> r \<in> roles)"

text \<open>The three helpers for durable custom permissions are stubs in the source
  (\<^verbatim>\<open>return set()\<close>, \<^verbatim>\<open>pass\<close>, \<^verbatim>\<open>pass\<close>), so nothing in the two operations below can raise.\<close>

definition get_custom_permissions :: "int \<Rightarrow> Permission set" where
  "get_custom_permissions user_id = {}"

definition grant_permission ::
  "PermissionChecker \<Rightarrow> int \<Rightarrow> Permission \<Rightarrow> bool \<times> PermissionChecker" where
  "grant_permission c user_id permission =
     (let c1 = (case cache c user_id of
                  Some _ \<Rightarrow> c
                | None \<Rightarrow>
                    (let role = get_user_role (db_session c) user_id;
                         (src, c') = ROLE_PERMISSIONS_get role c;
                         (a, c'') = alloc (heap c' src) c'
                     in c''\<lparr> cache := (cache c'')(user_id \<mapsto> a) \<rparr>))
      in case cache c1 user_id of
           Some a \<Rightarrow> (True, c1\<lparr> heap := (heap c1)(a := insert permission (heap c1 a)) \<rparr>)
         | None \<Rightarrow> (False, c1))"

definition revoke_permission ::
  "PermissionChecker \<Rightarrow> int \<Rightarrow> Permission \<Rightarrow> bool \<times> PermissionChecker" where
  "revoke_permission c user_id permission =
     (case cache c user_id of
        Some a \<Rightarrow> (True, c\<lparr> heap := (heap c)(a := heap c a - {permission}) \<rparr>)
      | None \<Rightarrow> (True, c))"

definition get_user_permissions ::
  "PermissionChecker \<Rightarrow> int \<Rightarrow> Permission set \<times> PermissionChecker" where
  "get_user_permissions c user_id =
     (case cache c user_id of
        Some a \<Rightarrow> (heap c a, c)
      | None \<Rightarrow>
          (case get_user_role (db_session c) user_id of
             None \<Rightarrow> ({}, c)
           | Some role \<Rightarrow>
               (let (src, c1) = ROLE_PERMISSIONS_get (Some role) c;
                    (a, c2) = alloc (heap c1 src) c1;
                    c3 = (if db_session c2 \<noteq> None
                          then c2\<lparr> heap := (heap c2)(a := heap c2 a \<union> get_custom_permissions user_id) \<rparr>
                          else c2);
                    c4 = c3\<lparr> cache := (cache c3)(user_id \<mapsto> a) \<rparr>
                in (heap c4 a, c4))))"

text \<open>\<^verbatim>\<open>if user_id:\<close> tests truthiness: \<^verbatim>\<open>None\<close> and \<^verbatim>\<open>0\<close> both take the \<^verbatim>\<open>else\<close> branch.\<close>

definition clear_cache :: "PermissionChecker \<Rightarrow> int option \<Rightarrow> PermissionChecker" where
  "clear_cache c user_id =
     (case user_id of
        Some u \<Rightarrow> (if u \<noteq> 0 then c\<lparr> cache := (cache c)(u := None) \<rparr>
                   else c\<lparr> cache := Map.empty \<rparr>)
      | None \<Rightarrow> c\<lparr> cache := Map.empty \<rparr>)"

text \<open>An identity store used to run the checker on concrete inputs: principals 1, 2 and 7
  are moderators, 3 is an administrator, the query for 9 raises, nobody else has a row.\<close>

definition demo_db :: db_session where
  "demo_db user_id =
     (if user_id = 1 \<or> user_id = 2 \<or> user_id = 7 then Rows [Some ''moderator'']
      else if user_id = 3 then Rows [Some ''admin'']
      else if user_id = 9 then QueryError
      else Rows [])"


section \<open>The shared counter store\<close>

text \<open>
  The rate limiter and the middleware talk to a Redis server. The model keeps what their
  commands read and write: a keyspace from key names to a typed value with an optional
  expiry instant, and the commands the source issues, each with the reply Redis gives.

  Time. \<^verbatim>\<open>time.time()\<close> is a float of seconds; the model uses \<open>real\<close>, so the rounding of
  float subtraction is not modelled. The server expires keys by its own clock; the model
  takes it to be the clock the process reads, and passes the instant of each round trip.

  Members. The rate limiter inserts \<^verbatim>\<open>{str(current_time): current_time}\<close>. \<^verbatim>\<open>str\<close> is
  injective on floats, so a member is represented by the float it prints.

  Faults. \<open>outage_in\<close> counts the round trips that still succeed before the connection is
  lost (\<open>None\<close>: it is never lost). A lost connection raises before anything is applied.
  A command on a key of the wrong type is answered by an error reply, and so is a time to
  live the server cannot store.
\<close>

type_synonym zset = "(real \<times> real) list"

datatype rvalue = ZSet zset | Str string | Hash "(string \<times> string) list"

type_synonym keyspace = "string \<rightharpoonup> rvalue \<times> real option"

record redis =
  keyspace :: keyspace
  outage_in :: "nat option"

text \<open>The exceptions of the model: two of the Redis client, three of Python.\<close>

datatype error = ConnectionError | ResponseError | TypeError | IndexError | AttributeError

datatype command =
    ZREMRANGEBYSCORE string real real
  | ZCARD string
  | ZADD string real real
  | EXPIRE string int
  | ZREM string real
  | ZRANGE_0_0_WITHSCORES string
  | EXISTS string
  | SETEX string int string
  | HSET string "(string \<times> string) list"
  | DEL string

datatype reply = Integer int | Entries zset | OK | WRONGTYPE | ERR

definition is_error_reply :: "reply \<Rightarrow> bool" where
  "is_error_reply rep = (rep = WRONGTYPE \<or> rep = ERR)"

subsection \<open>Sorted sets and hashes as association lists\<close>

fun zset_add :: "real \<Rightarrow> real \<Rightarrow> zset \<Rightarrow> zset" where
  "zset_add m s [] = [(m, s)]"
| "zset_add m s ((m', s') # z) =
     (if m' = m then (m, s) # z else (m', s') # zset_add m s z)"

definition zset_rem :: "real \<Rightarrow> zset \<Rightarrow> zset" where
  "zset_rem m z = filter (\<lambda>e. fst e \<noteq> m) z"

definition zset_remrangebyscore :: "real \<Rightarrow> real \<Rightarrow> zset \<Rightarrow> zset" where
  "zset_remrangebyscore lo hi z = filter (\<lambda>e. \<not> (lo \<le> snd e \<and> snd e \<le> hi)) z"

text \<open>The entry of rank 0: one of least score. Redis breaks ties between equal scores by
  the order of the member strings; the source reads the score of this entry only, which
  no tie-break changes, and the model takes the first such entry of the list.\<close>

fun zset_least :: "real \<times> real \<Rightarrow> zset \<Rightarrow> real \<times> real" where
  "zset_least e [] = e"
| "zset_least e (x # z) = zset_least (if snd x < snd e then x else e) z"

definition zset_range_0_0 :: "zset \<Rightarrow> zset" where
  "zset_range_0_0 z = (case z of [] \<Rightarrow> [] | e # z' \<Rightarrow> [zset_least e z'])"

fun hash_set :: "string \<Rightarrow> string \<Rightarrow> (string \<times> string) list \<Rightarrow> (string \<times> string) list" where
  "hash_set f v [] = [(f, v)]"
| "hash_set f v ((f', v') # h) =
     (if f' = f then (f, v) # h else (f', v') # hash_set f v h)"

subsection \<open>Commands\<close>

text \<open>A key whose expiry instant has been reached is gone for every command.\<close>

definition lookup :: "real \<Rightarrow> keyspace \<Rightarrow> string \<Rightarrow> (rvalue \<times> real option) option" where
  "lookup now ks k =
     (case ks k of
        None \<Rightarrow> None
      | Some (v, None) \<Rightarrow> Some (v, None)
      | Some (v, Some t) \<Rightarrow> (if now < t then Some (v, Some t) else None))"

text \<open>Redis deletes a sorted set when its last member is removed.\<close>

definition store_zset :: "string \<Rightarrow> zset \<Rightarrow> real option \<Rightarrow> keyspace \<Rightarrow> keyspace" where
  "store_zset k z e ks = (if z = [] then ks(k := None) else ks(k \<mapsto> (ZSet z, e)))"

text \<open>
  Expiry times. The server keeps the expiry of a key as a signed 64-bit count of
  milliseconds since the epoch and answers \<^verbatim>\<open>ERR invalid expire time\<close> to a time to live
  it cannot store. \<open>mstime\<close> is the server's clock in milliseconds.

  \<^verbatim>\<open>EXPIRE key seconds\<close> (\<^verbatim>\<open>expireGenericCommand\<close>) refuses \<open>seconds\<close> beyond
  \<open>LLONG_MAX / 1000\<close> in either direction, and then a sum \<open>seconds * 1000 + mstime\<close> above
  \<open>LLONG_MAX\<close>; it does so before it looks the key up. It accepts zero and negative
  values, which delete the key.

  \<^verbatim>\<open>SETEX key seconds value\<close> (\<^verbatim>\<open>getExpireMillisecondsOrReply\<close>) refuses \<open>seconds \<le> 0\<close>,
  \<open>seconds\<close> above \<open>LLONG_MAX / 1000\<close>, and a sum that is above \<open>LLONG_MAX\<close> (it wraps
  to a negative number) or not positive.

  An argument outside the 64-bit range is refused as no integer; both conditions cover it.
\<close>

definition LLONG_MAX :: int where
  "LLONG_MAX = 9223372036854775807"

definition mstime :: "real \<Rightarrow> int" where
  "mstime now = \<lfloor>now * 1000\<rfloor>"

definition expire_invalid :: "real \<Rightarrow> int \<Rightarrow> bool" where
  "expire_invalid now secs =
     (secs > 9223372036854775 \<or> secs < - 9223372036854775 \<or>
      secs * 1000 > LLONG_MAX - mstime now)"

definition setex_invalid :: "real \<Rightarrow> int \<Rightarrow> bool" where
  "setex_invalid now secs =
     (secs \<le> 0 \<or> secs > 9223372036854775 \<or>
      secs * 1000 + mstime now > LLONG_MAX \<or> secs * 1000 + mstime now \<le> 0)"

fun exec :: "real \<Rightarrow> command \<Rightarrow> keyspace \<Rightarrow> reply \<times> keyspace" where
  "exec now (ZREMRANGEBYSCORE k lo hi) ks =
     (case lookup now ks k of
        None \<Rightarrow> (Integer 0, ks)
      | Some (ZSet z, e) \<Rightarrow>
          (Integer (int (length z) - int (length (zset_remrangebyscore lo hi z))),
           store_zset k (zset_remrangebyscore lo hi z) e ks)
      | Some (_, e) \<Rightarrow> (WRONGTYPE, ks))"
| "exec now (ZCARD k) ks =
     (case lookup now ks k of
        None \<Rightarrow> (Integer 0, ks)
      | Some (ZSet z, e) \<Rightarrow> (Integer (int (length z)), ks)
      | Some (_, e) \<Rightarrow> (WRONGTYPE, ks))"
| "exec now (ZADD k m s) ks =
     (case lookup now ks k of
        None \<Rightarrow> (Integer 1, ks(k \<mapsto> (ZSet [(m, s)], None)))
      | Some (ZSet z, e) \<Rightarrow>
          (Integer (int (length (zset_add m s z)) - int (length z)),
           ks(k \<mapsto> (ZSet (zset_add m s z), e)))
      | Some (_, e) \<Rightarrow> (WRONGTYPE, ks))"
| "exec now (EXPIRE k secs) ks =
     (if expire_invalid now secs then (ERR, ks)
      else
        (case lookup now ks k of
           None \<Rightarrow> (Integer 0, ks)
         | Some (v, e) \<Rightarrow> (Integer 1, ks(k \<mapsto> (v, Some (now + real_of_int secs))))))"
| "exec now (ZREM k m) ks =
     (case lookup now ks k of
        None \<Rightarrow> (Integer 0, ks)
      | Some (ZSet z, e) \<Rightarrow>
          (Integer (int (length z) - int (length (zset_rem m z))),
           store_zset k (zset_rem m z) e ks)
      | Some (_, e) \<Rightarrow> (WRONGTYPE, ks))"
| "exec now (ZRANGE_0_0_WITHSCORES k) ks =
     (case lookup now ks k of
        None \<Rightarrow> (Entries [], ks)
      | Some (ZSet z, e) \<Rightarrow> (Entries (zset_range_0_0 z), ks)
      | Some (_, e) \<Rightarrow> (WRONGTYPE, ks))"
| "exec now (EXISTS k) ks =
     (case lookup now ks k of None \<Rightarrow> (Integer 0, ks) | Some _ \<Rightarrow> (Integer 1, ks))"
| "exec now (SETEX k secs v) ks =
     (if setex_invalid now secs then (ERR, ks)
      else (OK, ks(k \<mapsto> (Str v, Some (now + real_of_int secs)))))"
| "exec now (HSET k kvs) ks =
     (case lookup now ks k of
        None \<Rightarrow> (Integer (int (length (fold (\<lambda>(f, v). hash_set f v) kvs []))),
                 if kvs = [] then ks
                 else ks(k \<mapsto> (Hash (fold (\<lambda>(f, v). hash_set f v) kvs []), None)))
      | Some (Hash h, e) \<Rightarrow>
          (Integer (int (length (fold (\<lambda>(f, v). hash_set f v) kvs h)) - int (length h)),
           ks(k \<mapsto> (Hash (fold (\<lambda>(f, v). hash_set f v) kvs h), e)))
      | Some (_, e) \<Rightarrow> (WRONGTYPE, ks))"
| "exec now (DEL k) ks =
     (case lookup now ks k of
        None \<Rightarrow> (Integer 0, ks(k := None))
      | Some _ \<Rightarrow> (Integer 1, ks(k := None)))"

text \<open>The key a command works on.\<close>

fun command_key :: "command \<Rightarrow> string" where
  "command_key (ZREMRANGEBYSCORE k lo hi) = k"
| "command_key (ZCARD k) = k"
| "command_key (ZADD k m s) = k"
| "command_key (EXPIRE k secs) = k"
| "command_key (ZREM k m) = k"
| "command_key (ZRANGE_0_0_WITHSCORES k) = k"
| "command_key (EXISTS k) = k"
| "command_key (SETEX k secs v) = k"
| "command_key (HSET k kvs) = k"
| "command_key (DEL k) = k"

subsection \<open>Round trips\<close>

definition roundtrip :: "redis \<Rightarrow> redis option" where
  "roundtrip r =
     (case outage_in r of
        None \<Rightarrow> Some r
      | Some 0 \<Rightarrow> None
      | Some (Suc n) \<Rightarrow> Some (r\<lparr> outage_in := Some n \<rparr>))"

text \<open>\<^verbatim>\<open>await self.redis.cmd(...)\<close>: one command, one round trip; an error reply is raised.\<close>

definition execute_command :: "real \<Rightarrow> command \<Rightarrow> redis \<Rightarrow> (error + reply) \<times> redis" where
  "execute_command now cmd r =
     (case roundtrip r of
        None \<Rightarrow> (Inl ConnectionError, r)
      | Some r1 \<Rightarrow>
          (let (rep, ks) = exec now cmd (keyspace r1);
               r2 = r1\<lparr> keyspace := ks \<rparr>
           in if is_error_reply rep then (Inl ResponseError, r2) else (Inr rep, r2)))"

text \<open>
  \<^verbatim>\<open>pipe = self.redis.pipeline(); ...; await pipe.execute()\<close>: the queued commands are sent
  in one round trip and run in order as one transaction (\<^verbatim>\<open>MULTI\<close>/\<^verbatim>\<open>EXEC\<close>). A command that
  is answered by an error does not stop the ones after it; \<^verbatim>\<open>execute()\<close> then raises
  instead of returning the replies.
\<close>

fun run_commands :: "real \<Rightarrow> command list \<Rightarrow> keyspace \<Rightarrow> reply list \<times> keyspace" where
  "run_commands now [] ks = ([], ks)"
| "run_commands now (cmd # cmds) ks =
     (let (rep, ks1) = exec now cmd ks;
          (reps, ks2) = run_commands now cmds ks1
      in (rep # reps, ks2))"

definition pipeline_execute ::
  "real \<Rightarrow> command list \<Rightarrow> redis \<Rightarrow> (error + reply list) \<times> redis" where
  "pipeline_execute now cmds r =
     (case roundtrip r of
        None \<Rightarrow> (Inl ConnectionError, r)
      | Some r1 \<Rightarrow>
          (let (reps, ks) = run_commands now cmds (keyspace r1);
               r2 = r1\<lparr> keyspace := ks \<rparr>
           in if list_ex is_error_reply reps then (Inl ResponseError, r2) else (Inr reps, r2)))"

text \<open>\<^verbatim>\<open>results[i]\<close>, with \<open>None\<close> for the \<^verbatim>\<open>IndexError\<close>.\<close>

definition result_at :: "reply list \<Rightarrow> nat \<Rightarrow> reply option" where
  "result_at results i = (if i < length results then Some (results ! i) else None)"

section \<open>The rate limiter (security/rate\_limiter/redis\_rate\_limiter.py)\<close>

record RedisRateLimiter =
  prefix :: string

definition get_key :: "RedisRateLimiter \<Rightarrow> string \<Rightarrow> string" where
  "get_key rl key = prefix rl @ '':'' @ key"

text \<open>\<^verbatim>\<open>int(x)\<close> on a float truncates towards zero.\<close>

definition py_int :: "real \<Rightarrow> int" where
  "py_int x = (if 0 \<le> x then \<lfloor>x\<rfloor> else \<lceil>x\<rceil>)"

text \<open>
  \<open>current_time\<close> is the value \<^verbatim>\<open>time.time()\<close> returns in the call.
  \<open>check_rate_limit_try\<close> is the \<^verbatim>\<open>try\<close> block: it returns the tuple or the exception
  raised, with the store as the commands run so far have left it.
\<close>

definition check_rate_limit_try ::
  "RedisRateLimiter \<Rightarrow> string \<Rightarrow> int \<Rightarrow> int \<Rightarrow> real \<Rightarrow> redis
     \<Rightarrow> (error + bool \<times> int \<times> int) \<times> redis" where
  "check_rate_limit_try rl key limit window current_time r =
     (let redis_key = get_key rl key;
          window_start = current_time - real_of_int window
      in case pipeline_execute current_time
                [ZREMRANGEBYSCORE redis_key 0 window_start,
                 ZCARD redis_key,
                 ZADD redis_key current_time current_time,
                 EXPIRE redis_key (window + 1)] r of
           (Inl err, r1) \<Rightarrow> (Inl err, r1)
         | (Inr results, r1) \<Rightarrow>
             (case result_at results 1 of
                None \<Rightarrow> (Inl IndexError, r1)
              | Some (Integer current_count) \<Rightarrow>
                  (if current_count < limit then (Inr (True, current_count, window), r1)
                   else
                     (case execute_command current_time (ZREM redis_key current_time) r1 of
                        (Inl err, r2) \<Rightarrow> (Inl err, r2)
                      | (Inr removed, r2) \<Rightarrow>
                          (case execute_command current_time (ZRANGE_0_0_WITHSCORES redis_key) r2 of
                             (Inl err, r3) \<Rightarrow> (Inl err, r3)
                           | (Inr (Entries (oldest # rest)), r3) \<Rightarrow>
                               (Inr (False, current_count,
                                     py_int (real_of_int window - (current_time - snd oldest))), r3)
                           | (Inr other, r3) \<Rightarrow> (Inr (False, current_count, window), r3))))
              | Some other \<Rightarrow> (Inl TypeError, r1)))"

text \<open>The \<^verbatim>\<open>except Exception\<close> clause: log, then \<^verbatim>\<open>return True, 0, window\<close>.\<close>

definition check_rate_limit ::
  "RedisRateLimiter \<Rightarrow> string \<Rightarrow> int \<Rightarrow> int \<Rightarrow> real \<Rightarrow> redis \<Rightarrow> (bool \<times> int \<times> int) \<times> redis" where
  "check_rate_limit rl key limit window current_time r =
     (case check_rate_limit_try rl key limit window current_time r of
        (Inl err, r1) \<Rightarrow> ((True, 0, window), r1)
      | (Inr result, r1) \<Rightarrow> (result, r1))"

definition increment :: "RedisRateLimiter \<Rightarrow> string \<Rightarrow> int \<Rightarrow> real \<Rightarrow> redis \<Rightarrow> int \<times> redis" where
  "increment rl key window current_time r =
     (let redis_key = get_key rl key
      in case pipeline_execute current_time
                [ZADD redis_key current_time current_time,
                 EXPIRE redis_key (window + 1),
                 ZCARD redis_key] r of
           (Inl err, r1) \<Rightarrow> (0, r1)
         | (Inr results, r1) \<Rightarrow>
             (case result_at results 2 of
                Some (Integer n) \<Rightarrow> (n, r1)
              | other \<Rightarrow> (0, r1)))"

definition reset :: "RedisRateLimiter \<Rightarrow> string \<Rightarrow> real \<Rightarrow> redis \<Rightarrow> bool \<times> redis" where
  "reset rl key now r =
     (case execute_command now (DEL (get_key rl key)) r of
        (Inl err, r1) \<Rightarrow> (False, r1)
      | (Inr rep, r1) \<Rightarrow> (True, r1))"

definition get_remaining ::
  "RedisRateLimiter \<Rightarrow> string \<Rightarrow> int \<Rightarrow> int \<Rightarrow> real \<Rightarrow> redis \<Rightarrow> int \<times> redis" where
  "get_remaining rl key limit window current_time r =
     (let redis_key = get_key rl key;
          window_start = current_time - real_of_int window
      in case execute_command current_time (ZREMRANGEBYSCORE redis_key 0 window_start) r of
           (Inl err, r1) \<Rightarrow> (limit, r1)
         | (Inr removed, r1) \<Rightarrow>
             (case execute_command current_time (ZCARD redis_key) r1 of
                (Inr (Integer current_count), r2) \<Rightarrow> (max 0 (limit - current_count), r2)
              | (other, r2) \<Rightarrow> (limit, r2)))"

text \<open>A caller that fires one \<^verbatim>\<open>check_rate_limit\<close> per clock reading of a list, in order,
  and collects the \<open>allowed\<close> flags.\<close>

fun fire_requests ::
  "RedisRateLimiter \<Rightarrow> string \<Rightarrow> int \<Rightarrow> int \<Rightarrow> real list \<Rightarrow> redis \<Rightarrow> bool list \<times> redis" where
  "fire_requests rl key limit window [] r = ([], r)"
| "fire_requests rl key limit window (t # ts) r =
     (case check_rate_limit rl key limit window t r of
        ((allowed, current_count, reset_time), r1) \<Rightarrow>
          (case fire_requests rl key limit window ts r1 of
             (rest, r2) \<Rightarrow> (allowed # rest, r2)))"

text \<open>An empty, reachable store and a limiter with the default prefix.\<close>

definition empty_redis :: redis where
  "empty_redis = \<lparr> keyspace = Map.empty, outage_in = None \<rparr>"

definition default_limiter :: RedisRateLimiter where
  "default_limiter = \<lparr> prefix = ''rate_limit'' \<rparr>"

definition is_blocked ::
  "RedisRateLimiter \<Rightarrow> string \<Rightarrow> int \<Rightarrow> int \<Rightarrow> real \<Rightarrow> redis \<Rightarrow> bool \<times> redis" where
  "is_blocked rl key limit window current_time r =
     (case check_rate_limit rl key limit window current_time r of
        ((allowed, current_count, reset_time), r1) \<Rightarrow> (\<not> allowed, r1))"



section \<open>The middleware (security/rate\_limiter/middleware.py)\<close>

subsection \<open>Events and keys\<close>

text \<open>
  What the middleware reads of a Telegram update: for a \<^verbatim>\<open>Message\<close> the optional sender id
  (\<^verbatim>\<open>from_user\<close> is absent on channel posts), the text, the caption and the rendering
  \<^verbatim>\<open>str(event.date.timestamp())\<close>; for a \<^verbatim>\<open>CallbackQuery\<close> the sender id and the optional
  \<^verbatim>\<open>data\<close>; nothing of any other update.
\<close>

datatype TelegramObject =
    Message "int option" "string option" "string option" string
  | CallbackQuery int "string option"
  | OtherUpdate

text \<open>\<^verbatim>\<open>str(n)\<close> for an integer, as the f-strings of the key names format \<^verbatim>\<open>user_id\<close>.\<close>

function str_nat :: "nat \<Rightarrow> string" where
  "str_nat n = (if n < 10 then [''0123456789'' ! n]
                else str_nat (n div 10) @ [''0123456789'' ! (n mod 10)])"
  by pat_completeness auto
termination
  by (relation "measure id") auto

declare str_nat.simps [simp del]

definition str_int :: "int \<Rightarrow> string" where
  "str_int i = (if i < 0 then CHR ''-'' # str_nat (nat (- i)) else str_nat (nat i))"

record RateLimitMiddleware =
  rate_limiter :: RedisRateLimiter
  default_limit :: int
  default_window :: int
  spam_limit :: int
  spam_window :: int
  block_duration :: int

text \<open>The constructor's defaults.\<close>

definition default_middleware :: RateLimitMiddleware where
  "default_middleware =
     \<lparr> rate_limiter = default_limiter, default_limit = 20, default_window = 60,
       spam_limit = 100, spam_window = 3600, block_duration = 3600 \<rparr>"

definition block_key :: "int \<Rightarrow> string" where
  "block_key user_id = ''blocked:'' @ str_int user_id"

definition rate_key :: "int \<Rightarrow> string" where
  "rate_key user_id = ''user:'' @ str_int user_id"

definition spam_key :: "int \<Rightarrow> string" where
  "spam_key user_id = ''spam:'' @ str_int user_id"

definition activity_key :: "int \<Rightarrow> string" where
  "activity_key user_id = ''activity:'' @ str_int user_id"

text \<open>
  The clock readings of one pass through \<^verbatim>\<open>__call__\<close>: the store's clock when it runs
  \<^verbatim>\<open>EXISTS\<close>, \<^verbatim>\<open>time.time()\<close> in the first and in the second \<^verbatim>\<open>check_rate_limit\<close>, the
  store's clock at \<^verbatim>\<open>SETEX\<close> and at the two commands of \<^verbatim>\<open>_log_activity\<close>.
\<close>

record clock =
  t_exists :: real
  t_primary :: real
  t_spam :: real
  t_block :: real
  t_activity :: real

text \<open>What the caller of the middleware sees: the next handler ran without any check (no
  sender), it ran after the checks, or the update was answered and dropped.\<close>

datatype answer = TemporarilyBlocked | BlockedForHours int | TooManyRequests int

datatype outcome = PassedThrough | Handled | Rejected answer

subsection \<open>The helpers\<close>

text \<open>\<^verbatim>\<open>user_id = event.from_user.id\<close> for the two governed update types, else \<^verbatim>\<open>None\<close>.\<close>

fun event_user_id :: "TelegramObject \<Rightarrow> error + int option" where
  "event_user_id (Message (Some u) text caption date) = Inr (Some u)"
| "event_user_id (Message None text caption date) = Inl AttributeError"
| "event_user_id (CallbackQuery u d) = Inr (Some u)"
| "event_user_id OtherUpdate = Inr None"

text \<open>\<^verbatim>\<open>_block_user\<close> has no \<^verbatim>\<open>try\<close>: an exception of \<^verbatim>\<open>setex\<close> leaves \<^verbatim>\<open>__call__\<close>.\<close>

definition block_user :: "RateLimitMiddleware \<Rightarrow> int \<Rightarrow> real \<Rightarrow> redis \<Rightarrow> (error + unit) \<times> redis" where
  "block_user mw user_id now r =
     (case execute_command now
             (SETEX (get_key (rate_limiter mw) (block_key user_id)) (block_duration mw) ''1'') r of
        (Inl err, r1) \<Rightarrow> (Inl err, r1)
      | (Inr rep, r1) \<Rightarrow> (Inr (), r1))"

text \<open>\<^verbatim>\<open>a or b\<close> on optional strings: \<^verbatim>\<open>None\<close> and \<^verbatim>\<open>''\<close> are falsy.\<close>

definition truthy_str :: "string option \<Rightarrow> bool" where
  "truthy_str s = (case s of None \<Rightarrow> False | Some x \<Rightarrow> x \<noteq> [])"

definition log_activity_try ::
  "RateLimitMiddleware \<Rightarrow> int \<Rightarrow> TelegramObject \<Rightarrow> real \<Rightarrow> redis \<Rightarrow> (error + unit) \<times> redis" where
  "log_activity_try mw user_id event now r =
     (let (event_type, event_data, timestamp) =
            (case event of
               Message u text caption date \<Rightarrow>
                 (''message'',
                  (if truthy_str text then text
                   else if truthy_str caption then caption else Some ''media''),
                  date)
             | CallbackQuery u d \<Rightarrow> (''callback'', d, ''0'')
             | OtherUpdate \<Rightarrow> (''unknown'', Some [], ''0''));
          redis_key = get_key (rate_limiter mw) (activity_key user_id)
      in case event_data of
           None \<Rightarrow> (Inl TypeError, r)
         | Some d \<Rightarrow>
             (case execute_command now
                     (HSET redis_key
                        [(''type'', event_type), (''data'', take 100 d), (''timestamp'', timestamp)]) r of
                (Inl err, r1) \<Rightarrow> (Inl err, r1)
              | (Inr rep, r1) \<Rightarrow>
                  (case execute_command now (EXPIRE redis_key 86400) r1 of
                     (Inl err, r2) \<Rightarrow> (Inl err, r2)
                   | (Inr rep2, r2) \<Rightarrow> (Inr (), r2))))"

text \<open>The \<^verbatim>\<open>except\<close> clause of \<^verbatim>\<open>_log_activity\<close> logs the exception and returns.\<close>

definition log_activity ::
  "RateLimitMiddleware \<Rightarrow> int \<Rightarrow> TelegramObject \<Rightarrow> real \<Rightarrow> redis \<Rightarrow> redis" where
  "log_activity mw user_id event now r = snd (log_activity_try mw user_id event now r)"

subsection \<open>\<^verbatim>\<open>__call__\<close>\<close>

definition middleware_call ::
  "RateLimitMiddleware \<Rightarrow> clock \<Rightarrow> TelegramObject \<Rightarrow> redis \<Rightarrow> (error + outcome) \<times> redis" where
  "middleware_call mw clk event r =
     (case event_user_id event of
        Inl err \<Rightarrow> (Inl err, r)
      | Inr None \<Rightarrow> (Inr PassedThrough, r)
      | Inr (Some user_id) \<Rightarrow>
          (if user_id = 0 then (Inr PassedThrough, r)
           else
             (case execute_command (t_exists clk)
                     (EXISTS (get_key (rate_limiter mw) (block_key user_id))) r of
                (Inl err, r1) \<Rightarrow> (Inl err, r1)
              | (Inr blocked, r1) \<Rightarrow>
                  (if blocked \<noteq> Integer 0 then (Inr (Rejected TemporarilyBlocked), r1)
                   else
                     (case check_rate_limit (rate_limiter mw) (rate_key user_id)
                             (default_limit mw) (default_window mw) (t_primary clk) r1 of
                        ((allowed, current_count, reset_time), r2) \<Rightarrow>
                          (if \<not> allowed then
                             (case check_rate_limit (rate_limiter mw) (spam_key user_id)
                                     (spam_limit mw) (spam_window mw) (t_spam clk) r2 of
                                ((spam_allowed, spam_count, spam_reset), r3) \<Rightarrow>
                                  (if \<not> spam_allowed then
                                     (case block_user mw user_id (t_block clk) r3 of
                                        (Inl err, r4) \<Rightarrow> (Inl err, r4)
                                      | (Inr u, r4) \<Rightarrow>
                                          (Inr (Rejected (BlockedForHours (block_duration mw div 3600))),
                                           r4))
                                   else (Inr (Rejected (TooManyRequests reset_time)), r3)))
                           else
                             (Inr Handled,
                              log_activity mw user_id event (t_activity clk) r2)))))))"

definition unblock_user :: "RateLimitMiddleware \<Rightarrow> int \<Rightarrow> real \<Rightarrow> redis \<Rightarrow> bool \<times> redis" where
  "unblock_user mw user_id now r =
     (case execute_command now (DEL (get_key (rate_limiter mw) (block_key user_id))) r of
        (Inl err, r1) \<Rightarrow> (False, r1)
      | (Inr rep, r1) \<Rightarrow> (True, r1))"

text \<open>A middleware with limit 1 per minute, spam limit 1 per hour and a one-hour block,
  to run the escalation on few requests.\<close>

definition strict_middleware :: RateLimitMiddleware where
  "strict_middleware =
     \<lparr> rate_limiter = default_limiter, default_limit = 1, default_window = 60,
       spam_limit = 1, spam_window = 3600, block_duration = 3600 \<rparr>"

text \<open>A clock whose five readings are one instant.\<close>

definition at_instant :: "real \<Rightarrow> clock" where
  "at_instant t = \<lparr> t_exists = t, t_primary = t, t_spam = t, t_block = t, t_activity = t \<rparr>"


text \<open>The escalation on one principal: four messages of principal 7, one second apart, through
  \<open>strict_middleware\<close> on an empty store; \<open>after_request n\<close> is the store after the first
  \<open>n\<close> of them.\<close>

definition demo_message :: TelegramObject where
  "demo_message = Message (Some 7) (Some ''hi'') None ''100.0''"

fun after_request :: "nat \<Rightarrow> redis" where
  "after_request 0 = empty_redis"
| "after_request (Suc n) =
     snd (middleware_call strict_middleware (at_instant (100 + real n)) demo_message
            (after_request n))"


section \<open>The signature validator (security/webhook\_validator/signature\_validator.py)\<close>

subsection \<open>Payloads and the Python library\<close>

text \<open>
  A payload is a parsed JSON object, \<^verbatim>\<open>Dict[str, Any]\<close>. Strings are sequences of code
  points below 256, one \<open>char\<close> each.
\<close>

datatype json =
    JNull | JBool bool | JInt int | JFloat real | JStr string
  | JList "json list" | JDict "(string \<times> json) list"

type_synonym payload = "(string \<times> json) list"

text \<open>\<^verbatim>\<open>not x\<close> is false on a truthy value: anything but \<^verbatim>\<open>None\<close>, \<^verbatim>\<open>False\<close>, zero and
  the empty string, list or dict.\<close>

fun truthy :: "json \<Rightarrow> bool" where
  "truthy JNull = False"
| "truthy (JBool b) = b"
| "truthy (JInt i) = (i \<noteq> 0)"
| "truthy (JFloat x) = (x \<noteq> 0)"
| "truthy (JStr s) = (s \<noteq> [])"
| "truthy (JList xs) = (xs \<noteq> [])"
| "truthy (JDict kvs) = (kvs \<noteq> [])"

text \<open>
  The functions the validator takes from Python and its standard library, as parameters:
  \<^verbatim>\<open>hmac.new(key.encode(), msg.encode(), hashlib.sha256).hexdigest()\<close>,
  \<^verbatim>\<open>hashlib.md5(msg.encode()).hexdigest()\<close>,
  \<^verbatim>\<open>json.dumps(payload, separators=(',', ':'), sort_keys=True)\<close> and the formatting
  \<^verbatim>\<open>f"{x}"\<close> of a payload value. Digests are strings of hexadecimal digits, hence ASCII.
\<close>

record pylib =
  hmac_sha256_hexdigest :: "string \<Rightarrow> string \<Rightarrow> string"
  md5_hexdigest :: "string \<Rightarrow> string"
  json_dumps :: "payload \<Rightarrow> string"
  format :: "json \<Rightarrow> string"

definition is_ascii :: "string \<Rightarrow> bool" where
  "is_ascii s = list_all (\<lambda>c. (of_char c :: nat) < 128) s"

definition ascii_digests :: "pylib \<Rightarrow> bool" where
  "ascii_digests lib =
     ((\<forall>k m. is_ascii (hmac_sha256_hexdigest lib k m)) \<and> (\<forall>m. is_ascii (md5_hexdigest lib m)))"

text \<open>\<^verbatim>\<open>hmac.compare_digest\<close> on two \<^verbatim>\<open>str\<close> raises \<^verbatim>\<open>TypeError\<close> unless both are ASCII.\<close>

definition compare_digest :: "string \<Rightarrow> string \<Rightarrow> error + bool" where
  "compare_digest a b = (if is_ascii a \<and> is_ascii b then Inr (a = b) else Inl TypeError)"

text \<open>\<^verbatim>\<open>str.lower()\<close> on code points below 256: the ASCII capitals and the Latin-1 capitals
  (\<open>0xC0\<close> to \<open>0xDE\<close> without the multiplication sign \<open>0xD7\<close>) move up by 32, which
  sets the bit of weight 32.\<close>

definition lower_char :: "char \<Rightarrow> char" where
  "lower_char c =
     (let n = (of_char c :: nat)
      in if (65 \<le> n \<and> n \<le> 90) \<or> (192 \<le> n \<and> n \<le> 222 \<and> n \<noteq> 215)
         then (case c of Char b0 b1 b2 b3 b4 b5 b6 b7 \<Rightarrow> Char b0 b1 b2 b3 b4 True b6 b7)
         else c)"

definition lower :: "string \<Rightarrow> string" where
  "lower s = map lower_char s"

subsection \<open>The validator\<close>

record SignatureValidator =
  secrets :: "string \<rightharpoonup> string"
  replay_window :: int

definition SignatureValidator_init :: "(string \<rightharpoonup> string) \<Rightarrow> SignatureValidator" where
  "SignatureValidator_init s = \<lparr> secrets = s, replay_window = 300 \<rparr>"

text \<open>\<^verbatim>\<open>if not secret\<close>: the key is missing from the dict or its value is the empty string.\<close>

definition configured_secret :: "SignatureValidator \<Rightarrow> string \<Rightarrow> string option" where
  "configured_secret v name =
     (case secrets v name of
        None \<Rightarrow> None
      | Some secret \<Rightarrow> (if secret = [] then None else Some secret))"

text \<open>
  \<^verbatim>\<open>_check_timestamp\<close>: \<open>now\<close> is the value of \<^verbatim>\<open>time.time()\<close>. The subtraction raises
  \<^verbatim>\<open>TypeError\<close> unless the timestamp is a number (\<^verbatim>\<open>bool\<close> is one in Python).
\<close>

fun number_value :: "json \<Rightarrow> real option" where
  "number_value (JInt i) = Some (real_of_int i)"
| "number_value (JFloat x) = Some x"
| "number_value (JBool b) = Some (if b then 1 else 0)"
| "number_value other = None"

definition check_timestamp :: "SignatureValidator \<Rightarrow> real \<Rightarrow> json \<Rightarrow> error + bool" where
  "check_timestamp v now timestamp =
     (case number_value timestamp of
        None \<Rightarrow> Inl TypeError
      | Some ts \<Rightarrow>
          (let current_time = py_int now;
               time_diff = \<bar>real_of_int current_time - ts\<bar>
           in if time_diff > real_of_int (replay_window v) then Inr False else Inr True))"

text \<open>Each \<open>validate_x_try\<close> is the \<^verbatim>\<open>try\<close> block of \<^verbatim>\<open>validate_x\<close>; the \<^verbatim>\<open>except\<close> clause
  turns every exception into \<^verbatim>\<open>False\<close>.\<close>

definition caught :: "error + bool \<Rightarrow> bool" where
  "caught res = (case res of Inl err \<Rightarrow> False | Inr b \<Rightarrow> b)"

definition validate_yookassa_try ::
  "pylib \<Rightarrow> SignatureValidator \<Rightarrow> payload \<Rightarrow> string \<Rightarrow> error + bool" where
  "validate_yookassa_try lib v payload signature =
     (case configured_secret v ''yookassa'' of
        None \<Rightarrow> Inr False
      | Some secret \<Rightarrow>
          (case (case map_of payload ''object'' of
                   None \<Rightarrow> Inr []
                 | Some (JDict object_data) \<Rightarrow> Inr object_data
                 | Some other \<Rightarrow> Inl AttributeError) of
             Inl err \<Rightarrow> Inl err
           | Inr object_data \<Rightarrow>
               (case (map_of payload ''event'', map_of object_data ''id'') of
                  (Some event_type, Some object_id) \<Rightarrow>
                    (if \<not> truthy event_type \<or> \<not> truthy object_id then Inr False
                     else compare_digest signature
                            (hmac_sha256_hexdigest lib secret
                               (format lib event_type @ ''&'' @ format lib object_id @ ''&'' @ secret)))
                | other \<Rightarrow> Inr False)))"

definition validate_yookassa :: "pylib \<Rightarrow> SignatureValidator \<Rightarrow> payload \<Rightarrow> string \<Rightarrow> bool" where
  "validate_yookassa lib v payload signature =
     caught (validate_yookassa_try lib v payload signature)"

text \<open>The body shared by \<^verbatim>\<open>validate_cryptopay\<close> and \<^verbatim>\<open>validate_panel\<close>, which differ in the
  name of the secret only: HMAC of the canonical JSON, then the timestamp when the
  signature is valid and the payload has one.\<close>

definition validate_hmac_json_replay_try ::
  "string \<Rightarrow> pylib \<Rightarrow> SignatureValidator \<Rightarrow> real \<Rightarrow> payload \<Rightarrow> string \<Rightarrow> error + bool" where
  "validate_hmac_json_replay_try name lib v now payload signature =
     (case configured_secret v name of
        None \<Rightarrow> Inr False
      | Some secret \<Rightarrow>
          (case compare_digest signature
                  (hmac_sha256_hexdigest lib secret (json_dumps lib payload)) of
             Inl err \<Rightarrow> Inl err
           | Inr is_valid \<Rightarrow>
               (case (if is_valid then map_of payload ''timestamp'' else None) of
                  None \<Rightarrow> Inr is_valid
                | Some timestamp \<Rightarrow>
                    (case check_timestamp v now timestamp of
                       Inl err \<Rightarrow> Inl err
                     | Inr in_window \<Rightarrow> (if \<not> in_window then Inr False else Inr is_valid)))))"

definition validate_cryptopay ::
  "pylib \<Rightarrow> SignatureValidator \<Rightarrow> real \<Rightarrow> payload \<Rightarrow> string \<Rightarrow> bool" where
  "validate_cryptopay lib v now payload signature =
     caught (validate_hmac_json_replay_try ''cryptopay'' lib v now payload signature)"

definition validate_panel ::
  "pylib \<Rightarrow> SignatureValidator \<Rightarrow> real \<Rightarrow> payload \<Rightarrow> string \<Rightarrow> bool" where
  "validate_panel lib v now payload signature =
     caught (validate_hmac_json_replay_try ''panel'' lib v now payload signature)"

definition validate_freekassa_try ::
  "pylib \<Rightarrow> SignatureValidator \<Rightarrow> payload \<Rightarrow> string \<Rightarrow> error + bool" where
  "validate_freekassa_try lib v payload signature =
     (case configured_secret v ''freekassa'' of
        None \<Rightarrow> Inr False
      | Some secret \<Rightarrow>
          (case (map_of payload ''MERCHANT_ID'', map_of payload ''AMOUNT'',
                 map_of payload ''MERCHANT_ORDER_ID'') of
             (Some merchant_id, Some amount, Some order_id) \<Rightarrow>
               (if \<not> (truthy merchant_id \<and> truthy amount \<and> truthy order_id) then Inr False
                else compare_digest (lower signature)
                       (lower (md5_hexdigest lib
                                 (format lib merchant_id @ '':'' @ format lib amount @ '':'' @
                                  secret @ '':'' @ format lib order_id))))
           | other \<Rightarrow> Inr False))"

definition validate_freekassa :: "pylib \<Rightarrow> SignatureValidator \<Rightarrow> payload \<Rightarrow> string \<Rightarrow> bool" where
  "validate_freekassa lib v payload signature =
     caught (validate_freekassa_try lib v payload signature)"

definition validate_tribute_try ::
  "pylib \<Rightarrow> SignatureValidator \<Rightarrow> payload \<Rightarrow> string \<Rightarrow> error + bool" where
  "validate_tribute_try lib v payload signature =
     (case configured_secret v ''tribute'' of
        None \<Rightarrow> Inr False
      | Some secret \<Rightarrow>
          compare_digest signature (hmac_sha256_hexdigest lib secret (json_dumps lib payload)))"

definition validate_tribute :: "pylib \<Rightarrow> SignatureValidator \<Rightarrow> payload \<Rightarrow> string \<Rightarrow> bool" where
  "validate_tribute lib v payload signature =
     caught (validate_tribute_try lib v payload signature)"

definition validate_stars_try :: "SignatureValidator \<Rightarrow> payload \<Rightarrow> string \<Rightarrow> error + bool" where
  "validate_stars_try v payload signature =
     (case configured_secret v ''stars'' of
        None \<Rightarrow> Inr False
      | Some secret \<Rightarrow> compare_digest signature secret)"

definition validate_stars :: "SignatureValidator \<Rightarrow> payload \<Rightarrow> string \<Rightarrow> bool" where
  "validate_stars v payload signature = caught (validate_stars_try v payload signature)"

text \<open>\<^verbatim>\<open>validate\<close>: the dispatch on \<^verbatim>\<open>provider.lower()\<close>; an unknown name returns \<^verbatim>\<open>False\<close>.\<close>

definition validate ::
  "pylib \<Rightarrow> SignatureValidator \<Rightarrow> real \<Rightarrow> string \<Rightarrow> payload \<Rightarrow> string \<Rightarrow> bool" where
  "validate lib v now provider payload signature =
     (let name = lower provider
      in if name = ''yookassa'' then validate_yookassa lib v payload signature
         else if name = ''cryptopay'' then validate_cryptopay lib v now payload signature
         else if name = ''freekassa'' then validate_freekassa lib v payload signature
         else if name = ''tribute'' then validate_tribute lib v payload signature
         else if name = ''stars'' then validate_stars v payload signature
         else if name = ''panel'' then validate_panel lib v now payload signature
         else False)"

definition providers :: "string list" where
  "providers = [''yookassa'', ''cryptopay'', ''freekassa'', ''tribute'', ''stars'', ''panel'']"


subsection \<open>MD5\<close>

text \<open>
  \<^verbatim>\<open>hashlib.md5(s.encode()).hexdigest()\<close> after RFC 1321, on 32-bit words: the constants
  \<open>K\<close> and the rotation amounts, the four round functions, the padding with the length in
  bits, and the digest as the little-endian bytes of the four state words in lower-case
  hexadecimal.
\<close>

definition md5_K :: "32 word list" where
  "md5_K =
    [0xd76aa478, 0xe8c7b756, 0x242070db, 0xc1bdceee,
     0xf57c0faf, 0x4787c62a, 0xa8304613, 0xfd469501,
     0x698098d8, 0x8b44f7af, 0xffff5bb1, 0x895cd7be,
     0x6b901122, 0xfd987193, 0xa679438e, 0x49b40821,
     0xf61e2562, 0xc040b340, 0x265e5a51, 0xe9b6c7aa,
     0xd62f105d, 0x02441453, 0xd8a1e681, 0xe7d3fbc8,
     0x21e1cde6, 0xc33707d6, 0xf4d50d87, 0x455a14ed,
     0xa9e3e905, 0xfcefa3f8, 0x676f02d9, 0x8d2a4c8a,
     0xfffa3942, 0x8771f681, 0x6d9d6122, 0xfde5380c,
     0xa4beea44, 0x4bdecfa9, 0xf6bb4b60, 0xbebfbc70,
     0x289b7ec6, 0xeaa127fa, 0xd4ef3085, 0x04881d05,
     0xd9d4d039, 0xe6db99e5, 0x1fa27cf8, 0xc4ac5665,
     0xf4292244, 0x432aff97, 0xab9423a7, 0xfc93a039,
     0x655b59c3, 0x8f0ccc92, 0xffeff47d, 0x85845dd1,
     0x6fa87e4f, 0xfe2ce6e0, 0xa3014314, 0x4e0811a1,
     0xf7537e82, 0xbd3af235, 0x2ad7d2bb, 0xeb86d391]"

definition md5_s :: "nat list" where
  "md5_s =
    [7, 12, 17, 22, 7, 12, 17, 22, 7, 12, 17, 22, 7, 12, 17, 22,
     5, 9, 14, 20, 5, 9, 14, 20, 5, 9, 14, 20, 5, 9, 14, 20,
     4, 11, 16, 23, 4, 11, 16, 23, 4, 11, 16, 23, 4, 11, 16, 23,
     6, 10, 15, 21, 6, 10, 15, 21, 6, 10, 15, 21, 6, 10, 15, 21]"

definition md5_F :: "nat \<Rightarrow> 32 word \<Rightarrow> 32 word \<Rightarrow> 32 word \<Rightarrow> 32 word" where
  "md5_F i b c d =
     (if i < 16 then (b AND c) OR (NOT b AND d)
      else if i < 32 then (d AND b) OR (NOT d AND c)
      else if i < 48 then b XOR c XOR d
      else c XOR (b OR NOT d))"

definition md5_g :: "nat \<Rightarrow> nat" where
  "md5_g i =
     (if i < 16 then i
      else if i < 32 then (5 * i + 1) mod 16
      else if i < 48 then (3 * i + 5) mod 16
      else (7 * i) mod 16)"

type_synonym md5_state = "32 word \<times> 32 word \<times> 32 word \<times> 32 word"

definition md5_step :: "32 word list \<Rightarrow> nat \<Rightarrow> md5_state \<Rightarrow> md5_state" where
  "md5_step M i st =
     (case st of (a, b, c, d) \<Rightarrow>
        (d, b + word_rotl (md5_s ! i) (md5_F i b c d + a + md5_K ! i + M ! md5_g i), b, c))"

definition md5_block :: "32 word list \<Rightarrow> md5_state \<Rightarrow> md5_state" where
  "md5_block M st =
     (case (st, fold (md5_step M) [0..<64] st) of
        ((a, b, c, d), (a', b', c', d')) \<Rightarrow> (a + a', b + b', c + c', d + d'))"

text \<open>\<^verbatim>\<open>s.encode()\<close>: the UTF-8 bytes of a string of code points below 256.\<close>
definition utf8 :: "string \<Rightarrow> nat list" where
  "utf8 s = concat (map (\<lambda>c. let n = (of_char c :: nat)
                              in if n < 128 then [n] else [192 + n div 64, 128 + n mod 64]) s)"

fun le_bytes :: "nat \<Rightarrow> nat \<Rightarrow> nat list" where
  "le_bytes 0 n = []"
| "le_bytes (Suc k) n = n mod 256 # le_bytes k (n div 256)"

definition md5_pad :: "nat list \<Rightarrow> nat list" where
  "md5_pad bs =
     bs @ [128] @ replicate ((119 - length bs mod 64) mod 64) 0 @ le_bytes 8 (8 * length bs)"

fun le_words :: "nat list \<Rightarrow> 32 word list" where
  "le_words (b0 # b1 # b2 # b3 # bs) =
     (of_nat b0 OR push_bit 8 (of_nat b1) OR push_bit 16 (of_nat b2) OR push_bit 24 (of_nat b3))
       # le_words bs"
| "le_words bs = []"

fun md5_blocks :: "32 word list \<Rightarrow> md5_state \<Rightarrow> md5_state" where
  "md5_blocks ws st =
     (if length ws < 16 then st else md5_blocks (drop 16 ws) (md5_block (take 16 ws) st))"

declare md5_blocks.simps [simp del]

definition hex_digit :: "32 word \<Rightarrow> char" where
  "hex_digit x = ''0123456789abcdef'' ! unat x"

definition hex_le_word :: "32 word \<Rightarrow> string" where
  "hex_le_word w =
     concat (map (\<lambda>i. [hex_digit (drop_bit (8 * i + 4) w AND 15), hex_digit (drop_bit (8 * i) w AND 15)])
               [0, 1, 2, 3])"

definition md5_hex :: "string \<Rightarrow> string" where
  "md5_hex s =
     (case md5_blocks (le_words (md5_pad (utf8 s)))
             (0x67452301, 0xefcdab89, 0x98badcfe, 0x10325476) of
        (a, b, c, d) \<Rightarrow> concat (map hex_le_word [a, b, c, d]))"

subsection \<open>A library instance for concrete inputs\<close>

text \<open>
  \<open>demo_lib\<close> instantiates the library parameters so that the validator can be run.
  MD5 is the function above. \<open>demo_format\<close> is \<^verbatim>\<open>str\<close> on strings, integers, booleans and
  \<^verbatim>\<open>None\<close>. The HMAC and the JSON serialisation are stand-ins (an ASCII digest computed from
  key and message; the members in the order given): no statement below depends on their
  values, only on the validator comparing what it was given with what it computes.
\<close>

fun demo_format :: "json \<Rightarrow> string" where
  "demo_format (JStr s) = s"
| "demo_format (JInt i) = str_int i"
| "demo_format (JBool b) = (if b then ''True'' else ''False'')"
| "demo_format JNull = ''None''"
| "demo_format other = []"

definition demo_lib :: pylib where
  "demo_lib =
     \<lparr> hmac_sha256_hexdigest = (\<lambda>key msg. md5_hex (key @ msg)),
       md5_hexdigest = md5_hex,
       json_dumps = (\<lambda>p. concat (map (\<lambda>kv. fst kv @ '':'' @ demo_format (snd kv) @ '','') p)),
       format = demo_format \<rparr>"

definition demo_secrets :: "string \<rightharpoonup> string" where
  "demo_secrets =
     [''yookassa'' \<mapsto> ''yk-secret'', ''cryptopay'' \<mapsto> ''cp-token'',
      ''freekassa'' \<mapsto> ''secret'', ''tribute'' \<mapsto> ''tr-secret'',
      ''stars'' \<mapsto> ''bot-token'', ''panel'' \<mapsto> ''panel-secret'']"

definition demo_validator :: SignatureValidator where
  "demo_validator = SignatureValidator_init demo_secrets"

subsection \<open>The documented recipes\<close>

text \<open>
  The signature each provider's recipe prescribes, as the source's comments and the
  specification's table give it: for \<^verbatim>\<open>yookassa\<close> the HMAC-SHA256 of
  \<^verbatim>\<open>event & object.id & secret\<close>; for \<^verbatim>\<open>cryptopay\<close>, \<^verbatim>\<open>tribute\<close> and \<^verbatim>\<open>panel\<close> the
  HMAC-SHA256 of the canonical JSON body; for \<^verbatim>\<open>freekassa\<close> the MD5 of
  \<^verbatim>\<open>MERCHANT_ID:AMOUNT:secret:MERCHANT_ORDER_ID\<close>; for \<^verbatim>\<open>stars\<close> the secret token itself.
\<close>

definition documented_signature :: "pylib \<Rightarrow> string \<Rightarrow> string \<Rightarrow> payload \<Rightarrow> string option" where
  "documented_signature lib name secret payload =
     (if name = ''yookassa'' then
        (case (map_of payload ''event'', map_of payload ''object'') of
           (Some event, Some (JDict obj)) \<Rightarrow>
             (case map_of obj ''id'' of
                Some oid \<Rightarrow>
                  Some (hmac_sha256_hexdigest lib secret
                          (format lib event @ ''&'' @ format lib oid @ ''&'' @ secret))
              | None \<Rightarrow> None)
         | other \<Rightarrow> None)
      else if name = ''cryptopay'' \<or> name = ''tribute'' \<or> name = ''panel'' then
        Some (hmac_sha256_hexdigest lib secret (json_dumps lib payload))
      else if name = ''freekassa'' then
        (case (map_of payload ''MERCHANT_ID'', map_of payload ''AMOUNT'',
               map_of payload ''MERCHANT_ORDER_ID'') of
           (Some m, Some a, Some ord) \<Rightarrow>
             Some (md5_hexdigest lib
                     (format lib m @ '':'' @ format lib a @ '':'' @ secret @ '':'' @ format lib ord))
         | other \<Rightarrow> None)
      else if name = ''stars'' then Some secret
      else None)"

text \<open>
  The payloads a scheme accepts: the fields of the message are present and truthy
  (\<^verbatim>\<open>yookassa\<close>, \<^verbatim>\<open>freekassa\<close>); a timestamp, if the payload has one, is a number within the
  replay window of the clock reading in whole seconds (\<^verbatim>\<open>cryptopay\<close>, \<^verbatim>\<open>panel\<close>); any
  payload (\<^verbatim>\<open>tribute\<close>, \<^verbatim>\<open>stars\<close>).
\<close>

definition truthy_field :: "json option \<Rightarrow> bool" where
  "truthy_field x = (case x of None \<Rightarrow> False | Some j \<Rightarrow> truthy j)"

definition scheme_accepts :: "SignatureValidator \<Rightarrow> real \<Rightarrow> string \<Rightarrow> payload \<Rightarrow> bool" where
  "scheme_accepts v now name payload =
     (if name = ''yookassa'' then
        truthy_field (map_of payload ''event'') \<and>
        (case map_of payload ''object'' of
           Some (JDict obj) \<Rightarrow> truthy_field (map_of obj ''id'')
         | other \<Rightarrow> False)
      else if name = ''freekassa'' then
        truthy_field (map_of payload ''MERCHANT_ID'') \<and> truthy_field (map_of payload ''AMOUNT'') \<and>
        truthy_field (map_of payload ''MERCHANT_ORDER_ID'')
      else if name = ''cryptopay'' \<or> name = ''panel'' then
        (case map_of payload ''timestamp'' of
           None \<Rightarrow> True
         | Some ts \<Rightarrow>
             (case number_value ts of
                None \<Rightarrow> False
              | Some x \<Rightarrow> \<bar>real_of_int (py_int now) - x\<bar> \<le> real_of_int (replay_window v)))
      else name = ''tribute'' \<or> name = ''stars'')"

text \<open>A FreeKassa notification and one of its signature with one letter in upper case.\<close>

definition freekassa_payload :: payload where
  "freekassa_payload =
     [(''MERCHANT_ID'', JStr ''1''), (''AMOUNT'', JStr ''100''), (''MERCHANT_ORDER_ID'', JStr ''42'')]"


section \<open>The IP whitelist (security/webhook\_validator/ip\_whitelist.py)\<close>

subsection \<open>The \<^verbatim>\<open>ipaddress\<close> module\<close>

text \<open>
  An address is a 32-bit or a 128-bit integer, a network an address with a prefix length.
  The textual form of IPv4 is parsed as the module does (four decimal octets without
  leading zeros; after a slash a prefix length, a netmask or a host mask); the textual
  form of IPv6 is a parameter: \<open>IPv6Address_of\<close> and \<open>IPv6Network_of\<close> stand for the
  constructors \<^verbatim>\<open>IPv6Address(s)\<close> and \<^verbatim>\<open>IPv6Network(s, strict=False)\<close>, \<open>None\<close> for the
  \<^verbatim>\<open>ValueError\<close>.
\<close>

datatype address = IPv4Address "32 word" | IPv6Address "128 word"

datatype network = IPv4Network "32 word" nat | IPv6Network "128 word" nat

record ipaddress_v6 =
  IPv6Address_of :: "string \<Rightarrow> 128 word option"
  IPv6Network_of :: "string \<Rightarrow> (128 word \<times> nat) option"

text \<open>\<^verbatim>\<open>s.split(sep)\<close> for a separator of one character.\<close>

fun split :: "char \<Rightarrow> string \<Rightarrow> string list" where
  "split sep [] = [[]]"
| "split sep (c # cs) =
     (if c = sep then [] # split sep cs
      else (case split sep cs of w # ws \<Rightarrow> (c # w) # ws | [] \<Rightarrow> [[c]]))"

definition is_digit :: "char \<Rightarrow> bool" where
  "is_digit c = (48 \<le> (of_char c :: nat) \<and> (of_char c :: nat) \<le> 57)"

text \<open>\<^verbatim>\<open>s.isascii() and s.isdigit()\<close>: not empty, decimal digits only.\<close>

definition is_decimal :: "string \<Rightarrow> bool" where
  "is_decimal s = (s \<noteq> [] \<and> list_all is_digit s)"

definition int_of_decimal :: "string \<Rightarrow> nat" where
  "int_of_decimal s = fold (\<lambda>c n. 10 * n + ((of_char c :: nat) - 48)) s 0"

text \<open>\<^verbatim>\<open>_parse_octet\<close>.\<close>

definition parse_octet :: "string \<Rightarrow> nat option" where
  "parse_octet octet_str =
     (if octet_str = [] then None
      else if \<not> is_decimal octet_str then None
      else if length octet_str > 3 then None
      else if octet_str \<noteq> ''0'' \<and> hd octet_str = CHR ''0'' then None
      else if int_of_decimal octet_str > 255 then None
      else Some (int_of_decimal octet_str))"

text \<open>\<^verbatim>\<open>_ip_int_from_string\<close>: the four octets, most significant first.\<close>

definition ip_int_from_string :: "string \<Rightarrow> 32 word option" where
  "ip_int_from_string ip_str =
     (if ip_str = [] then None
      else (case map parse_octet (split CHR ''.'' ip_str) of
              [Some a, Some b, Some c, Some d] \<Rightarrow>
                Some (push_bit 24 (of_nat a) OR push_bit 16 (of_nat b) OR push_bit 8 (of_nat c)
                      OR of_nat d)
            | other \<Rightarrow> None))"

definition IPv4Address_of :: "string \<Rightarrow> 32 word option" where
  "IPv4Address_of s = (if CHR ''/'' \<in> set s then None else ip_int_from_string s)"

text \<open>\<^verbatim>\<open>_ip_int_from_prefix\<close>: the netmask of a prefix length.\<close>

definition netmask4 :: "nat \<Rightarrow> 32 word" where
  "netmask4 p = 0xFFFFFFFF XOR drop_bit p 0xFFFFFFFF"

definition netmask6 :: "nat \<Rightarrow> 128 word" where
  "netmask6 p = (- 1) XOR drop_bit p (- 1)"

text \<open>\<^verbatim>\<open>_prefix_from_prefix_string\<close>.\<close>

definition prefix_from_prefix_string :: "string \<Rightarrow> nat option" where
  "prefix_from_prefix_string s =
     (if is_decimal s \<and> int_of_decimal s \<le> 32 then Some (int_of_decimal s) else None)"

text \<open>\<^verbatim>\<open>_prefix_from_ip_int\<close> accepts an integer of the form ones-then-zeroes and returns the
  number of ones, that is the prefix length whose netmask the integer is.\<close>

fun prefix_of_mask :: "nat \<Rightarrow> 32 word \<Rightarrow> nat option" where
  "prefix_of_mask 0 w = (if netmask4 0 = w then Some 0 else None)"
| "prefix_of_mask (Suc p) w = (if netmask4 (Suc p) = w then Some (Suc p) else prefix_of_mask p w)"

definition prefix_from_ip_int :: "32 word \<Rightarrow> nat option" where
  "prefix_from_ip_int w = prefix_of_mask 32 w"

text \<open>\<^verbatim>\<open>_prefix_from_ip_string\<close>: a netmask, or else a host mask, in dotted form.\<close>

definition prefix_from_ip_string :: "string \<Rightarrow> nat option" where
  "prefix_from_ip_string s =
     (case ip_int_from_string s of
        None \<Rightarrow> None
      | Some w \<Rightarrow>
          (case prefix_from_ip_int w of
             Some p \<Rightarrow> Some p
           | None \<Rightarrow> prefix_from_ip_int (w XOR 0xFFFFFFFF)))"

definition make_netmask :: "string \<Rightarrow> nat option" where
  "make_netmask arg =
     (case prefix_from_prefix_string arg of
        Some p \<Rightarrow> Some p
      | None \<Rightarrow> prefix_from_ip_string arg)"

text \<open>\<^verbatim>\<open>IPv4Network(s, strict=False)\<close>: at most one slash, the address, the mask (32 without
  a slash); the host bits of the address are masked off.\<close>

definition IPv4Network_of :: "string \<Rightarrow> (32 word \<times> nat) option" where
  "IPv4Network_of s =
     (case split CHR ''/'' s of
        [addr_str] \<Rightarrow>
          (case ip_int_from_string addr_str of
             None \<Rightarrow> None
           | Some a \<Rightarrow> Some (a, 32))
      | [addr_str, mask_str] \<Rightarrow>
          (case ip_int_from_string addr_str of
             None \<Rightarrow> None
           | Some a \<Rightarrow>
               (case make_netmask mask_str of
                  None \<Rightarrow> None
                | Some p \<Rightarrow> Some (a AND netmask4 p, p)))
      | other \<Rightarrow> None)"

text \<open>\<^verbatim>\<open>ipaddress.ip_address\<close> and \<^verbatim>\<open>ipaddress.ip_network\<close> try IPv4 first, then IPv6.\<close>

definition ip_address :: "ipaddress_v6 \<Rightarrow> string \<Rightarrow> address option" where
  "ip_address lib s =
     (case IPv4Address_of s of
        Some a \<Rightarrow> Some (IPv4Address a)
      | None \<Rightarrow>
          (case IPv6Address_of lib s of
             Some a \<Rightarrow> Some (IPv6Address a)
           | None \<Rightarrow> None))"

definition ip_network :: "ipaddress_v6 \<Rightarrow> string \<Rightarrow> network option" where
  "ip_network lib s =
     (case IPv4Network_of s of
        Some (a, p) \<Rightarrow> Some (IPv4Network a p)
      | None \<Rightarrow>
          (case IPv6Network_of lib s of
             Some (a, p) \<Rightarrow> Some (IPv6Network a p)
           | None \<Rightarrow> None))"

text \<open>\<^verbatim>\<open>ip in network\<close>: false across versions, else
  \<^verbatim>\<open>ip._ip & network.netmask._ip == network.network_address._ip\<close>.\<close>

fun contains :: "network \<Rightarrow> address \<Rightarrow> bool" where
  "contains (IPv4Network n p) (IPv4Address a) = (a AND netmask4 p = n)"
| "contains (IPv6Network n p) (IPv6Address a) = (a AND netmask6 p = n)"
| "contains (IPv4Network n p) (IPv6Address a) = False"
| "contains (IPv6Network n p) (IPv4Address a) = False"

subsection \<open>The whitelist\<close>

record IPWhitelist =
  whitelists :: "string \<rightharpoonup> network set"

definition DEFAULT_WHITELISTS :: "(string \<times> string list) list" where
  "DEFAULT_WHITELISTS =
     [(''yookassa'',
         [''185.71.76.0/27'', ''185.71.77.0/27'', ''77.75.153.0/25'', ''77.75.156.11'',
          ''77.75.156.35'', ''77.75.154.128/25'']),
      (''cryptopay'', [''0.0.0.0/0'']),
      (''freekassa'',
         [''168.119.157.136'', ''168.119.60.227'', ''138.201.88.124'', ''178.154.197.79'']),
      (''tribute'', [''0.0.0.0/0'']),
      (''stars'', [''149.154.160.0/20'', ''91.108.4.0/22'']),
      (''panel'', [''127.0.0.1'', ''::1''])]"

text \<open>\<^verbatim>\<open>_parse_ip_list\<close>: the entries that parse; the others are logged and skipped.\<close>

definition parse_ip_list :: "ipaddress_v6 \<Rightarrow> string list \<Rightarrow> network set" where
  "parse_ip_list lib ip_list = set (List.map_filter (ip_network lib) ip_list)"

text \<open>\<^verbatim>\<open>__init__\<close>: the defaults, then the custom lists, merged into a provider's set when it
  has one.\<close>

definition add_custom ::
  "ipaddress_v6 \<Rightarrow> string \<times> string list \<Rightarrow> (string \<rightharpoonup> network set) \<Rightarrow> (string \<rightharpoonup> network set)" where
  "add_custom lib entry wl =
     (case wl (fst entry) of
        Some nets \<Rightarrow> wl(fst entry \<mapsto> nets \<union> parse_ip_list lib (snd entry))
      | None \<Rightarrow> wl(fst entry \<mapsto> parse_ip_list lib (snd entry)))"

definition IPWhitelist_init ::
  "ipaddress_v6 \<Rightarrow> (string \<times> string list) list option \<Rightarrow> IPWhitelist" where
  "IPWhitelist_init lib custom_whitelists =
     (let defaults = fold (\<lambda>entry wl. wl(fst entry \<mapsto> parse_ip_list lib (snd entry)))
                       DEFAULT_WHITELISTS Map.empty
      in \<lparr> whitelists =
             (case custom_whitelists of
                None \<Rightarrow> defaults
              | Some custom \<Rightarrow> fold (add_custom lib) custom defaults) \<rparr>)"

definition is_allowed :: "ipaddress_v6 \<Rightarrow> IPWhitelist \<Rightarrow> string \<Rightarrow> string \<Rightarrow> bool" where
  "is_allowed lib wl provider ip_str =
     (case whitelists wl provider of
        None \<Rightarrow> False
      | Some nets \<Rightarrow>
          (case ip_address lib ip_str of
             None \<Rightarrow> False
           | Some ip \<Rightarrow> (\<exists>net \<in> nets. contains net ip)))"

definition add_ip :: "ipaddress_v6 \<Rightarrow> IPWhitelist \<Rightarrow> string \<Rightarrow> string \<Rightarrow> bool \<times> IPWhitelist" where
  "add_ip lib wl provider ip_str =
     (case ip_network lib ip_str of
        None \<Rightarrow> (False, wl)
      | Some net \<Rightarrow>
          (True,
           wl\<lparr> whitelists := (whitelists wl)(provider \<mapsto>
                  insert net (case whitelists wl provider of None \<Rightarrow> {} | Some nets \<Rightarrow> nets)) \<rparr>))"

definition remove_ip :: "ipaddress_v6 \<Rightarrow> IPWhitelist \<Rightarrow> string \<Rightarrow> string \<Rightarrow> bool \<times> IPWhitelist" where
  "remove_ip lib wl provider ip_str =
     (case whitelists wl provider of
        None \<Rightarrow> (False, wl)
      | Some nets \<Rightarrow>
          (case ip_network lib ip_str of
             None \<Rightarrow> (False, wl)
           | Some net \<Rightarrow>
               (if net \<in> nets
                then (True, wl\<lparr> whitelists := (whitelists wl)(provider \<mapsto> nets - {net}) \<rparr>)
                else (False, wl))))"

definition clear_whitelist :: "IPWhitelist \<Rightarrow> string \<Rightarrow> bool \<times> IPWhitelist" where
  "clear_whitelist wl provider =
     (case whitelists wl provider of
        Some nets \<Rightarrow> (True, wl\<lparr> whitelists := (whitelists wl)(provider \<mapsto> {}) \<rparr>)
      | None \<Rightarrow> (False, wl))"

text \<open>\<^verbatim>\<open>disable_whitelist\<close>: the provider's set becomes the two universal networks; an
  exception of \<^verbatim>\<open>ip_network\<close> is caught and \<^verbatim>\<open>False\<close> returned.\<close>

definition disable_whitelist :: "ipaddress_v6 \<Rightarrow> IPWhitelist \<Rightarrow> string \<Rightarrow> bool \<times> IPWhitelist" where
  "disable_whitelist lib wl provider =
     (case (ip_network lib ''0.0.0.0/0'', ip_network lib ''::/0'') of
        (Some v4, Some v6) \<Rightarrow>
          (True, wl\<lparr> whitelists := (whitelists wl)(provider \<mapsto> {v4, v6}) \<rparr>)
      | other \<Rightarrow> (False, wl))"

text \<open>An IPv6 side that knows the loopback address and the universal network only.\<close>

definition demo_v6 :: ipaddress_v6 where
  "demo_v6 =
     \<lparr> IPv6Address_of = (\<lambda>s. if s = ''::1'' then Some 1 else if s = ''::'' then Some 0 else None),
       IPv6Network_of = (\<lambda>s. if s = ''::/0'' then Some (0, 0)
                              else if s = ''::1'' then Some (1, 128) else None) \<rparr>"



chapter \<open>Properties\<close>

section \<open>Access control\<close>

text \<open>
  Claim C10. Calling \<^verbatim>\<open>clear_cache\<close> with principal id 0 empties the whole permission
  cache, every principal's entry and not only the one of principal 0, because the
  per-principal branch is taken for truthy ids only; for every nonzero principal id
  \<^verbatim>\<open>clear_cache\<close> removes that principal's entry and no other. The sets themselves are
  not touched in either case.
\<close>

theorem clear_cache_zero_clears_all:
  "(\<forall>v. cache (clear_cache c (Some 0)) v = None) \<and>
   (u \<noteq> 0 \<longrightarrow>
      cache (clear_cache c (Some u)) u = None \<and>
      (\<forall>v. v \<noteq> u \<longrightarrow> cache (clear_cache c (Some u)) v = cache c v)) \<and>
   heap (clear_cache c (Some u)) = heap c"
  by (simp add: clear_cache_def)

theorem clear_cache_zero_clears_all_witness:
  "(7::int) \<noteq> 0 \<and>
   cache (snd (grant_permission (snd (grant_permission (init_checker None) 7 WRITE)) 8 WRITE)) 8 = Some 5 \<and>
   cache (clear_cache (snd (grant_permission (snd (grant_permission (init_checker None) 7 WRITE)) 8 WRITE)) (Some 0)) 8 = None \<and>
   cache (clear_cache (snd (grant_permission (snd (grant_permission (init_checker None) 7 WRITE)) 8 WRITE)) (Some 7)) 7 = None \<and>
   cache (clear_cache (snd (grant_permission (snd (grant_permission (init_checker None) 7 WRITE)) 8 WRITE)) (Some 7)) 8 = Some 5"
  using clear_cache_zero_clears_all
          [of "snd (grant_permission (snd (grant_permission (init_checker None) 7 WRITE)) 8 WRITE)" 7]
  by (simp add: grant_permission_def init_checker_def get_user_role_def
        ROLE_PERMISSIONS_get_def alloc_def Let_def)

text \<open>
  The moderator scenario on a fresh checker, for any identity store that resolves the
  principal to \<^verbatim>\<open>moderator\<close>: \<^verbatim>\<open>VIEW_PAYMENTS\<close> is held and \<^verbatim>\<open>MANAGE_USERS\<close> is not; after
  \<^verbatim>\<open>grant_permission\<close> it is held, after \<^verbatim>\<open>revoke_permission\<close> it is not.
\<close>

lemma moderator_role:
  "db u = Rows [Some ''moderator''] \<Longrightarrow> get_user_role (Some db) u = Some MODERATOR"
  by (simp add: get_user_role_def Role_of_value_def)

lemma moderator_fresh_permissions:
  assumes "db u = Rows [Some ''moderator'']"
  shows "fst (has_permission (init_checker (Some db)) u VIEW_PAYMENTS True)"
    and "\<not> fst (has_permission (init_checker (Some db)) u MANAGE_USERS True)"
  using assms
  by (simp_all add: has_permission_def moderator_role ROLE_PERMISSIONS_get_def init_checker_def)

lemma moderator_grant_then_revoke:
  assumes "db u = Rows [Some ''moderator'']"
  defines "c1 \<equiv> snd (grant_permission (init_checker (Some db)) u MANAGE_USERS)"
  shows "fst (has_permission c1 u MANAGE_USERS True)"
    and "\<not> fst (has_permission (snd (revoke_permission c1 u MANAGE_USERS)) u MANAGE_USERS True)"
  using assms
  by (simp_all add: has_permission_def grant_permission_def revoke_permission_def moderator_role
        ROLE_PERMISSIONS_get_def alloc_def init_checker_def Let_def)

lemma clear_cache_other_nonzero:
  assumes "v \<noteq> u" and "v \<noteq> 0"
  shows "fst (get_user_permissions (clear_cache c (Some v)) u) = fst (get_user_permissions c u)"
  using assms
  by (simp add: get_user_permissions_def clear_cache_def ROLE_PERMISSIONS_get_def alloc_def
        Let_def split: option.splits)

text \<open>
  Claim C8 fails on the code in two places, both evaluated here on \<open>demo_db\<close>.

  (1) \<^verbatim>\<open>has_permission\<close> caches the role table's own set object (no \<^verbatim>\<open>.copy()\<close>, unlike
  \<^verbatim>\<open>grant_permission\<close> and \<^verbatim>\<open>get_user_permissions\<close>). After one permission check for
  moderator 1, granting \<^verbatim>\<open>MANAGE_USERS\<close> to principal 1 writes into the moderator entry of
  \<^verbatim>\<open>ROLE_PERMISSIONS\<close>: principal 2, a moderator who was never granted anything, now passes
  \<^verbatim>\<open>has_permission(2, MANAGE_USERS)\<close>.

  (2) \<^verbatim>\<open>clear_cache(0)\<close> takes the clear-everything branch: after an ad-hoc grant to
  principal 7, clearing the cache "for principal 0" removes the grant of principal 7.
\<close>

theorem moderator_permissions_leak:
  "fst (has_permission
          (snd (grant_permission
                  (snd (has_permission (init_checker (Some demo_db)) 1 READ True))
                  1 MANAGE_USERS))
          2 MANAGE_USERS True) = True
   \<and> get_user_role (Some demo_db) 2 = Some MODERATOR
   \<and> MANAGE_USERS \<in> fst (get_user_permissions
                          (snd (grant_permission (init_checker (Some demo_db)) 7 MANAGE_USERS)) 7)
   \<and> MANAGE_USERS \<notin> fst (get_user_permissions
                          (clear_cache
                             (snd (grant_permission (init_checker (Some demo_db)) 7 MANAGE_USERS))
                             (Some 0)) 7)"
  by (simp add: has_permission_def grant_permission_def get_user_permissions_def clear_cache_def
        get_custom_permissions_def init_checker_def demo_db_def get_user_role_def
        Role_of_value_def ROLE_PERMISSIONS_get_def alloc_def Let_def)

section \<open>The rate limiter\<close>

subsection \<open>One call on a reachable store\<close>

lemma zset_remrangebyscore_none:
  "\<forall>e\<in>set z. hi < snd e \<Longrightarrow> zset_remrangebyscore lo hi z = z"
  by (induction z) (auto simp: zset_remrangebyscore_def)

lemma zset_add_fresh: "m \<notin> fst ` set z \<Longrightarrow> zset_add m s z = z @ [(m, s)]"
  by (induction z) auto

lemma zset_rem_last: "m \<notin> fst ` set z \<Longrightarrow> zset_rem m (z @ [(m, s)]) = z"
  by (induction z) (auto simp: zset_rem_def)

lemma lookup_upd_same:
  "lookup now (ks(k \<mapsto> (v, Some t))) k = (if now < t then Some (v, Some t) else None)"
  "lookup now (ks(k \<mapsto> (v, None))) k = Some (v, None)"
  "lookup now (ks(k := None)) k = None"
  by (simp_all add: lookup_def)

lemma lookup_live_upd:
  "lookup now ks k = Some (v, e) \<Longrightarrow> lookup now (ks(k \<mapsto> (v', e))) k = Some (v', e)"
  by (auto simp: lookup_def split: option.splits if_splits prod.splits)

lemma pipeline_step:
  assumes up: "outage_in r = None"
    and st: "lookup now (keyspace r) k = None \<and> z = [] \<or>
             (\<exists>e. lookup now (keyspace r) k = Some (ZSet z, e))"
    and inwin: "\<forall>e\<in>set z. now - real_of_int window < snd e"
    and fresh: "now \<notin> fst ` set z"
    and ok: "\<not> expire_invalid now (window + 1)"
  shows "pipeline_execute now
           [ZREMRANGEBYSCORE k 0 (now - real_of_int window), ZCARD k, ZADD k now now,
            EXPIRE k (window + 1)] r =
         (Inr [Integer 0, Integer (int (length z)), Integer 1, Integer 1],
          r\<lparr> keyspace := (keyspace r)(k \<mapsto> (ZSet (z @ [(now, now)]),
                                             Some (now + real_of_int (window + 1)))) \<rparr>)"
proof (cases "z = []")
  case True
  from st True have "lookup now (keyspace r) k = None \<or> (\<exists>e. lookup now (keyspace r) k = Some (ZSet [], e))"
    by auto
  then show ?thesis
    using up True ok
    by (auto simp: pipeline_execute_def roundtrip_def is_error_reply_def store_zset_def
          zset_remrangebyscore_def lookup_upd_same Let_def)
next
  case False
  with st obtain e where e: "lookup now (keyspace r) k = Some (ZSet z, e)" by auto
  note live = lookup_live_upd[OF e]
  show ?thesis
    using up False e live ok
    by (simp add: pipeline_execute_def roundtrip_def is_error_reply_def store_zset_def
          zset_remrangebyscore_none[OF inwin] zset_add_fresh[OF fresh] lookup_upd_same Let_def)
qed

lemma check_rate_limit_allowed:
  assumes up: "outage_in r = None"
    and st: "lookup now (keyspace r) (get_key rl key) = None \<and> z = [] \<or>
             (\<exists>e. lookup now (keyspace r) (get_key rl key) = Some (ZSet z, e))"
    and inwin: "\<forall>e\<in>set z. now - real_of_int window < snd e"
    and fresh: "now \<notin> fst ` set z"
    and ok: "\<not> expire_invalid now (window + 1)"
    and lim: "int (length z) < limit"
  shows "check_rate_limit rl key limit window now r =
         ((True, int (length z), window),
          r\<lparr> keyspace := (keyspace r)(get_key rl key \<mapsto>
                 (ZSet (z @ [(now, now)]), Some (now + real_of_int (window + 1)))) \<rparr>)"
  using lim
  by (simp add: check_rate_limit_def check_rate_limit_try_def pipeline_step[OF up st inwin fresh ok]
        result_at_def)

lemma check_rate_limit_rejected:
  assumes up: "outage_in r = None"
    and st: "lookup now (keyspace r) (get_key rl key) = None \<and> z = [] \<or>
             (\<exists>e. lookup now (keyspace r) (get_key rl key) = Some (ZSet z, e))"
    and inwin: "\<forall>e\<in>set z. now - real_of_int window < snd e"
    and fresh: "now \<notin> fst ` set z"
    and ok: "\<not> expire_invalid now (window + 1)"
    and lim: "limit \<le> int (length z)" and pos: "0 < limit" and w: "0 \<le> window"
  shows "\<exists>reset_time. check_rate_limit rl key limit window now r =
         ((False, int (length z), reset_time),
          r\<lparr> keyspace := (keyspace r)(get_key rl key \<mapsto>
                 (ZSet z, Some (now + real_of_int (window + 1)))) \<rparr>)"
proof -
  from lim pos have ne: "z \<noteq> []" by auto
  have up': "\<And>ks. outage_in (r\<lparr>keyspace := ks\<rparr>) = None" using up by simp
  show ?thesis
    using lim ne w
    by (simp add: check_rate_limit_def check_rate_limit_try_def
          pipeline_step[OF up st inwin fresh ok] result_at_def
          execute_command_def roundtrip_def up lookup_upd_same zset_rem_last[OF fresh]
          store_zset_def is_error_reply_def zset_range_0_0_def split: list.splits)
qed

subsection \<open>A burst of calls\<close>

lemma fire_requests_general:
  assumes pos: "0 < limit" and w: "0 \<le> window" and up: "outage_in r = None"
    and st: "ds = [] \<and> keyspace r (get_key rl key) = None \<or>
             (\<exists>x. keyspace r (get_key rl key) = Some (ZSet (map (\<lambda>t. (t, t)) ds), Some x) \<and>
                  (\<forall>t\<in>set ts. t < x))"
    and dist: "distinct (ds @ ts)"
    and win: "\<forall>d\<in>set ds \<union> set ts. \<forall>t\<in>set ts. t - d < real_of_int window"
    and ok: "\<forall>t\<in>set ts. \<not> expire_invalid t (window + 1)"
  shows "fire_requests rl key limit window ts r =
         (replicate (min (length ts) (nat limit - length ds)) True @
          replicate (length ts - (nat limit - length ds)) False,
          if ts = [] then r
          else r\<lparr> keyspace := (keyspace r)(get_key rl key \<mapsto>
                  (ZSet (map (\<lambda>t. (t, t)) (ds @ take (nat limit - length ds) ts)),
                   Some (last ts + real_of_int (window + 1)))) \<rparr>)"
  using up st dist win ok
proof (induction ts arbitrary: ds r)
  case Nil
  then show ?case by simp
next
  case (Cons t ts)
  let ?k = "get_key rl key"
  let ?z = "map (\<lambda>t. (t, t)) ds"
  have st1: "lookup t (keyspace r) ?k = None \<and> ?z = [] \<or>
             (\<exists>e. lookup t (keyspace r) ?k = Some (ZSet ?z, e))"
    using Cons.prems(2) by (auto simp: lookup_def)
  have inwin: "\<forall>e\<in>set ?z. t - real_of_int window < snd e"
  proof
    fix e assume "e \<in> set ?z"
    then obtain d where d: "d \<in> set ds" "e = (d, d)" by auto
    from Cons.prems(4) d(1) have "t - d < real_of_int window" by simp
    then show "t - real_of_int window < snd e" using d(2) by simp
  qed
  have fresh: "t \<notin> fst ` set ?z"
    using Cons.prems(3) by (auto simp: image_iff)
  have ok1: "\<not> expire_invalid t (window + 1)"
    using Cons.prems(5) by simp
  have later: "\<forall>t'\<in>set ts. t' < t + real_of_int (window + 1)"
  proof
    fix t' assume "t' \<in> set ts"
    with Cons.prems(4) have "t' - t < real_of_int window" by simp
    then show "t' < t + real_of_int (window + 1)" by simp
  qed
  show ?case
  proof (cases "int (length ds) < limit")
    case True
    let ?r1 = "r\<lparr> keyspace := (keyspace r)(?k \<mapsto>
                 (ZSet (?z @ [(t, t)]), Some (t + real_of_int (window + 1)))) \<rparr>"
    have step: "check_rate_limit rl key limit window t r = ((True, int (length ?z), window), ?r1)"
      using True by (intro check_rate_limit_allowed[OF Cons.prems(1) st1 inwin fresh ok1]) simp
    have IH: "fire_requests rl key limit window ts ?r1 =
         (replicate (min (length ts) (nat limit - length (ds @ [t]))) True @
          replicate (length ts - (nat limit - length (ds @ [t]))) False,
          if ts = [] then ?r1
          else ?r1\<lparr> keyspace := (keyspace ?r1)(?k \<mapsto>
                  (ZSet (map (\<lambda>t. (t, t)) ((ds @ [t]) @ take (nat limit - length (ds @ [t])) ts)),
                   Some (last ts + real_of_int (window + 1)))) \<rparr>)"
    proof (rule Cons.IH)
      show "outage_in ?r1 = None" using Cons.prems(1) by simp
      show "ds @ [t] = [] \<and> keyspace ?r1 ?k = None \<or>
            (\<exists>x. keyspace ?r1 ?k = Some (ZSet (map (\<lambda>t. (t, t)) (ds @ [t])), Some x) \<and>
                 (\<forall>t\<in>set ts. t < x))"
        using later by simp
      show "distinct ((ds @ [t]) @ ts)" using Cons.prems(3) by simp
      show "\<forall>d\<in>set (ds @ [t]) \<union> set ts. \<forall>t\<in>set ts. t - d < real_of_int window"
        using Cons.prems(4) by auto
      show "\<forall>t\<in>set ts. \<not> expire_invalid t (window + 1)"
        using Cons.prems(5) by simp
    qed
    from True obtain c where c: "nat limit - length ds = Suc c"
      by (cases "nat limit - length ds") auto
    then have c': "nat limit - Suc (length ds) = c" by simp
    show ?thesis
      unfolding fire_requests.simps step prod.case IH using c c' by simp
  next
    case False
    let ?r1 = "r\<lparr> keyspace := (keyspace r)(?k \<mapsto>
                 (ZSet ?z, Some (t + real_of_int (window + 1)))) \<rparr>"
    from False have lim: "limit \<le> int (length ?z)" by simp
    obtain reset_time where
      step: "check_rate_limit rl key limit window t r = ((False, int (length ?z), reset_time), ?r1)"
      using check_rate_limit_rejected[OF Cons.prems(1) st1 inwin fresh ok1 lim pos w] by blast
    have IH: "fire_requests rl key limit window ts ?r1 =
         (replicate (min (length ts) (nat limit - length ds)) True @
          replicate (length ts - (nat limit - length ds)) False,
          if ts = [] then ?r1
          else ?r1\<lparr> keyspace := (keyspace ?r1)(?k \<mapsto>
                  (ZSet (map (\<lambda>t. (t, t)) (ds @ take (nat limit - length ds) ts)),
                   Some (last ts + real_of_int (window + 1)))) \<rparr>)"
    proof (rule Cons.IH)
      show "outage_in ?r1 = None" using Cons.prems(1) by simp
      show "ds = [] \<and> keyspace ?r1 ?k = None \<or>
            (\<exists>x. keyspace ?r1 ?k = Some (ZSet (map (\<lambda>t. (t, t)) ds), Some x) \<and>
                 (\<forall>t\<in>set ts. t < x))"
        using later by simp
      show "distinct (ds @ ts)" using Cons.prems(3) by simp
      show "\<forall>d\<in>set ds \<union> set ts. \<forall>t\<in>set ts. t - d < real_of_int window"
        using Cons.prems(4) by auto
      show "\<forall>t\<in>set ts. \<not> expire_invalid t (window + 1)"
        using Cons.prems(5) by simp
    qed
    from False have c: "nat limit - length ds = 0" by simp
    show ?thesis
      unfolding fire_requests.simps step prod.case IH using c by simp
  qed
qed

lemma get_remaining_counts:
  assumes up: "outage_in r = None"
    and st: "keyspace r (get_key rl key) = Some (ZSet z, Some x)" and live: "now < x"
    and ne: "z \<noteq> []"
    and inwin: "\<forall>e\<in>set z. now - real_of_int window < snd e"
  shows "fst (get_remaining rl key L window now r) = max 0 (L - int (length z))"
proof -
  have lk: "lookup now (keyspace r) (get_key rl key) = Some (ZSet z, Some x)"
    using st live by (simp add: lookup_def)
  show ?thesis
    using up lk ne live
    by (simp add: get_remaining_def execute_command_def roundtrip_def is_error_reply_def
          zset_remrangebyscore_none[OF inwin] store_zset_def lookup_upd_same)
qed

text \<open>
  Claim C1, as the code has it. For every key, every \<open>limit > 0\<close> and every \<open>window > 0\<close>
  for which \<open>window + 1\<close> seconds is a time to live the store accepts at each clock reading
  (\<open>window + 1\<close> at most 9223372036854775, and \<open>(window + 1) * 1000\<close> plus the reading in
  milliseconds at most \<open>LLONG_MAX\<close>): on a reachable store where the key does not exist
  yet, \<open>N > limit\<close> calls of \<^verbatim>\<open>check_rate_limit\<close> whose clock readings are pairwise distinct
  and lie within one window of each other return \<open>allowed = True\<close> for exactly the first
  \<open>limit\<close> calls and \<open>False\<close> for the rest; afterwards \<^verbatim>\<open>get_remaining\<close>, called within the
  same window with any limit \<open>L\<close>, returns \<open>max 0 (L - limit)\<close>: it counts \<open>limit\<close> entries,
  not \<open>N\<close>.
\<close>

theorem burst_allows_exactly_limit:
  assumes "0 < limit" and "0 < window"
    and "outage_in r = None" and "keyspace r (get_key rl key) = None"
    and "distinct ts"
    and "\<forall>a\<in>set ts. \<forall>b\<in>set ts. b - a < real_of_int window"
    and "limit < int (length ts)"
    and "\<forall>a\<in>set ts. t_obs - a < real_of_int window"
    and "\<forall>a\<in>set ts. \<not> expire_invalid a (window + 1)"
  shows "fst (fire_requests rl key limit window ts r) =
           replicate (nat limit) True @ replicate (length ts - nat limit) False
         \<and> fst (get_remaining rl key L window t_obs (snd (fire_requests rl key limit window ts r)))
             = max 0 (L - limit)"
proof -
  let ?k = "get_key rl key"
  let ?z = "map (\<lambda>t. (t, t)) (take (nat limit) ts)"
  let ?x = "last ts + real_of_int (window + 1)"
  from assms(1,7) have ne: "ts \<noteq> []" by auto
  have gen: "fire_requests rl key limit window ts r =
         (replicate (min (length ts) (nat limit - length ([]::real list))) True @
          replicate (length ts - (nat limit - length ([]::real list))) False,
          if ts = [] then r
          else r\<lparr> keyspace := (keyspace r)(?k \<mapsto>
                  (ZSet (map (\<lambda>t. (t, t)) ([] @ take (nat limit - length ([]::real list)) ts)),
                   Some (last ts + real_of_int (window + 1)))) \<rparr>)"
    by (rule fire_requests_general) (use assms in auto)
  have m: "min (length ts) (nat limit) = nat limit" using assms(7) by simp
  have flags: "fst (fire_requests rl key limit window ts r) =
           replicate (nat limit) True @ replicate (length ts - nat limit) False"
    by (simp add: gen m)
  let ?r' = "snd (fire_requests rl key limit window ts r)"
  have up': "outage_in ?r' = None" using assms(3) by (simp add: gen)
  have st': "keyspace ?r' ?k = Some (ZSet ?z, Some ?x)" using ne by (simp add: gen)
  have "last ts \<in> set ts" using ne by simp
  with assms(8) have "t_obs - last ts < real_of_int window" by blast
  then have live: "t_obs < ?x" by simp
  have zne: "?z \<noteq> []" using ne assms(1) by simp
  have inwin: "\<forall>e\<in>set ?z. t_obs - real_of_int window < snd e"
  proof
    fix e assume "e \<in> set ?z"
    then obtain a where a: "a \<in> set (take (nat limit) ts)" "e = (a, a)" by auto
    from a(1) have "a \<in> set ts" by (rule in_set_takeD)
    with assms(8) have "t_obs - a < real_of_int window" by blast
    then show "t_obs - real_of_int window < snd e" using a(2) by simp
  qed
  have len: "int (length ?z) = limit" using assms(1,7) by simp
  have "fst (get_remaining rl key L window t_obs ?r') = max 0 (L - int (length ?z))"
    by (rule get_remaining_counts[OF up' st' live zne inwin])
  with len flags show ?thesis by simp
qed

theorem burst_allows_exactly_limit_witness:
  "fst (fire_requests default_limiter ''user:7'' 2 60 [100, 100.5, 101, 130] empty_redis) =
     [True, True, False, False]
   \<and> fst (get_remaining default_limiter ''user:7'' 5 60 131
            (snd (fire_requests default_limiter ''user:7'' 2 60 [100, 100.5, 101, 130] empty_redis)))
       = 3"
  using burst_allows_exactly_limit
          [of 2 60 empty_redis default_limiter "''user:7''" "[100, 100.5, 101, 130]" 131 5]
  by (simp add: empty_redis_def expire_invalid_def mstime_def LLONG_MAX_def numeral_eq_Suc)

text \<open>
  Claim C1 as stated does not ask for distinct clock readings, and fails without them: the
  member is \<^verbatim>\<open>str(current_time)\<close>, so a call at a reading already in the set overwrites
  that entry instead of adding one. Three calls at the same reading with \<open>limit = 2\<close> are
  all allowed, and one entry is counted afterwards; with \<open>limit = 1\<close> the second call is
  rejected and its \<^verbatim>\<open>zrem\<close> removes the entry of the first.
\<close>

theorem burst_same_reading_counterexample:
  "fst (fire_requests default_limiter ''user:7'' 2 60 [100, 100, 100] empty_redis) =
     [True, True, True]
   \<and> fst (get_remaining default_limiter ''user:7'' 2 60 100
            (snd (fire_requests default_limiter ''user:7'' 2 60 [100, 100, 100] empty_redis))) = 1
   \<and> fst (fire_requests default_limiter ''user:7'' 1 60 [100, 100] empty_redis) = [True, False]
   \<and> fst (get_remaining default_limiter ''user:7'' 1 60 100
            (snd (fire_requests default_limiter ''user:7'' 1 60 [100, 100] empty_redis))) = 1"
  by (simp add: check_rate_limit_def check_rate_limit_try_def get_remaining_def
        pipeline_execute_def execute_command_def roundtrip_def lookup_def result_at_def
        is_error_reply_def store_zset_def zset_rem_def zset_remrangebyscore_def
        zset_range_0_0_def get_key_def default_limiter_def empty_redis_def
        expire_invalid_def mstime_def LLONG_MAX_def Let_def)

text \<open>
  The bound on the window is needed as well. With a window of \<open>10^16\<close> seconds the store
  refuses the \<^verbatim>\<open>EXPIRE\<close> of every call, \<^verbatim>\<open>pipe.execute()\<close> raises, and the \<^verbatim>\<open>except\<close> clause
  allows the call: three calls at distinct readings with \<open>limit = 1\<close> are all allowed, and
  the three entries stay in the set with no expiry.
\<close>

lemma burst_unstorable_window_fails_open:
  "fst (fire_requests default_limiter ''user:7'' 1 10000000000000000 [100, 101, 102] empty_redis)
     = [True, True, True]
   \<and> keyspace (snd (fire_requests default_limiter ''user:7'' 1 10000000000000000 [100, 101, 102]
                      empty_redis)) ''rate_limit:user:7''
       = Some (ZSet [(100, 100), (101, 101), (102, 102)], None)"
  by (simp add: check_rate_limit_def check_rate_limit_try_def
        pipeline_execute_def execute_command_def roundtrip_def lookup_def result_at_def
        is_error_reply_def store_zset_def zset_rem_def zset_remrangebyscore_def
        zset_range_0_0_def get_key_def default_limiter_def empty_redis_def
        expire_invalid_def mstime_def LLONG_MAX_def Let_def)

section \<open>Failure policies\<close>



section \<open>The middleware\<close>

subsection \<open>Which keys a call writes\<close>

lemma exec_frame: "k' \<noteq> command_key cmd \<Longrightarrow> snd (exec now cmd ks) k' = ks k'"
  by (cases cmd) (auto simp: store_zset_def split: option.splits rvalue.splits prod.splits)

lemma run_commands_frame:
  "\<forall>c\<in>set cmds. command_key c \<noteq> k' \<Longrightarrow> snd (run_commands now cmds ks) k' = ks k'"
proof (induction cmds arbitrary: ks)
  case Nil
  then show ?case by simp
next
  case (Cons c cmds)
  from Cons.prems have "snd (exec now c ks) k' = ks k'" by (intro exec_frame) auto
  moreover from Cons.prems have "snd (run_commands now cmds (snd (exec now c ks))) k' = snd (exec now c ks) k'"
    by (intro Cons.IH) auto
  ultimately show ?case by (simp add: split_beta)
qed

lemma execute_command_frame:
  "k' \<noteq> command_key cmd \<Longrightarrow> keyspace (snd (execute_command now cmd r)) k' = keyspace r k'"
  using exec_frame[of k' cmd now]
  by (auto simp: execute_command_def roundtrip_def split_beta Let_def split: option.splits nat.splits)

lemma pipeline_execute_frame:
  "\<forall>c\<in>set cmds. command_key c \<noteq> k' \<Longrightarrow>
   keyspace (snd (pipeline_execute now cmds r)) k' = keyspace r k'"
  using run_commands_frame[of cmds k' now]
  by (auto simp: pipeline_execute_def roundtrip_def split_beta Let_def split: option.splits nat.splits)

lemma check_rate_limit_try_frame:
  assumes "k' \<noteq> get_key rl key"
  shows "keyspace (snd (check_rate_limit_try rl key limit window t r)) k' = keyspace r k'"
proof -
  let ?k = "get_key rl key"
  let ?cmds = "[ZREMRANGEBYSCORE ?k 0 (t - real_of_int window), ZCARD ?k, ZADD ?k t t,
                EXPIRE ?k (window + 1)]"
  have p: "\<And>r. keyspace (snd (pipeline_execute t ?cmds r)) k' = keyspace r k'"
    using assms by (intro pipeline_execute_frame) auto
  have e1: "\<And>r. keyspace (snd (execute_command t (ZREM ?k t) r)) k' = keyspace r k'"
    using assms by (intro execute_command_frame) auto
  have e2: "\<And>r. keyspace (snd (execute_command t (ZRANGE_0_0_WITHSCORES ?k) r)) k' = keyspace r k'"
    using assms by (intro execute_command_frame) auto
  obtain a r1 where P: "pipeline_execute t ?cmds r = (a, r1)" by (cases "pipeline_execute t ?cmds r")
  obtain b r2 where E1: "execute_command t (ZREM ?k t) r1 = (b, r2)"
    by (cases "execute_command t (ZREM ?k t) r1")
  obtain c r3 where E2: "execute_command t (ZRANGE_0_0_WITHSCORES ?k) r2 = (c, r3)"
    by (cases "execute_command t (ZRANGE_0_0_WITHSCORES ?k) r2")
  from p[of r] P have k1: "keyspace r1 k' = keyspace r k'" by simp
  from e1[of r1] E1 have k2: "keyspace r2 k' = keyspace r1 k'" by simp
  from e2[of r2] E2 have k3: "keyspace r3 k' = keyspace r2 k'" by simp
  show ?thesis
    using k1 k2 k3
    by (simp add: check_rate_limit_try_def Let_def P E1 E2
             split: sum.splits option.splits reply.splits list.splits)
qed

lemma check_rate_limit_frame:
  "k' \<noteq> get_key rl key \<Longrightarrow>
   keyspace (snd (check_rate_limit rl key limit window t r)) k' = keyspace r k'"
  using check_rate_limit_try_frame[of k' rl key limit window t r]
  by (cases "check_rate_limit_try rl key limit window t r";
      cases "fst (check_rate_limit_try rl key limit window t r)")
     (auto simp: check_rate_limit_def)

lemma log_activity_frame:
  assumes "k' \<noteq> get_key (rate_limiter mw) (activity_key uid)"
  shows "keyspace (log_activity mw uid event t r) k' = keyspace r k'"
proof -
  let ?k = "get_key (rate_limiter mw) (activity_key uid)"
  have e1: "\<And>kvs r. keyspace (snd (execute_command t (HSET ?k kvs) r)) k' = keyspace r k'"
    using assms by (intro execute_command_frame) auto
  have e2: "\<And>r. keyspace (snd (execute_command t (EXPIRE ?k 86400) r)) k' = keyspace r k'"
    using assms by (intro execute_command_frame) auto
  have s: "\<And>x. keyspace (snd (case x of (Inl err, r1) \<Rightarrow> (Inl err, r1)
        | (Inr rep, r1) \<Rightarrow>
            (case execute_command t (EXPIRE ?k 86400) r1 of
               (Inl err, r2) \<Rightarrow> (Inl err, r2) | (Inr rep2, r2) \<Rightarrow> (Inr (), r2)))) k'
      = keyspace (snd x) k'"
    subgoal for x
      using e2[of "snd x"]
      by (cases x; cases "fst x"; cases "execute_command t (EXPIRE ?k 86400) (snd x)";
          cases "fst (execute_command t (EXPIRE ?k 86400) (snd x))") auto
    done
  show ?thesis
    by (cases event) (simp_all add: log_activity_def log_activity_try_def Let_def s e1 split: option.splits)
qed

subsection \<open>Calls on a store that stays reachable\<close>

lemma execute_command_reachable:
  "outage_in r = None \<Longrightarrow> outage_in (snd (execute_command now cmd r)) = None"
  by (simp add: execute_command_def roundtrip_def split_beta Let_def)

lemma pipeline_execute_reachable:
  "outage_in r = None \<Longrightarrow> outage_in (snd (pipeline_execute now cmds r)) = None"
  by (simp add: pipeline_execute_def roundtrip_def split_beta Let_def)

lemma check_rate_limit_reachable:
  assumes "outage_in r = None"
  shows "outage_in (snd (check_rate_limit rl key limit window t r)) = None"
proof -
  let ?k = "get_key rl key"
  let ?cmds = "[ZREMRANGEBYSCORE ?k 0 (t - real_of_int window), ZCARD ?k, ZADD ?k t t,
                EXPIRE ?k (window + 1)]"
  obtain a r1 where P: "pipeline_execute t ?cmds r = (a, r1)" by (cases "pipeline_execute t ?cmds r")
  obtain b r2 where E1: "execute_command t (ZREM ?k t) r1 = (b, r2)"
    by (cases "execute_command t (ZREM ?k t) r1")
  obtain c r3 where E2: "execute_command t (ZRANGE_0_0_WITHSCORES ?k) r2 = (c, r3)"
    by (cases "execute_command t (ZRANGE_0_0_WITHSCORES ?k) r2")
  from pipeline_execute_reachable[OF assms, of t ?cmds] P have k1: "outage_in r1 = None" by simp
  from execute_command_reachable[OF k1, of t "ZREM ?k t"] E1 have k2: "outage_in r2 = None" by simp
  from execute_command_reachable[OF k2, of t "ZRANGE_0_0_WITHSCORES ?k"] E2
  have k3: "outage_in r3 = None" by simp
  show ?thesis
    using k1 k2 k3
    by (simp add: check_rate_limit_def check_rate_limit_try_def Let_def P E1 E2
             split: sum.splits option.splits reply.splits list.splits)
qed

lemma block_user_refused:
  assumes "outage_in r = None" and "setex_invalid now (block_duration mw)"
  shows "block_user mw uid now r = (Inl ResponseError, r)"
  using assms
  by (simp add: block_user_def execute_command_def roundtrip_def is_error_reply_def)

lemma exists_reachable:
  "outage_in r = None \<Longrightarrow>
   execute_command now (EXISTS k) r =
     (Inr (Integer (if lookup now (keyspace r) k = None then 0 else 1)), r)"
  by (simp add: execute_command_def roundtrip_def is_error_reply_def split: option.splits)

lemma key_names_differ:
  "get_key rl (spam_key u) \<noteq> get_key rl (rate_key u)"
  "get_key rl (spam_key u) \<noteq> get_key rl (activity_key u)"
  "get_key rl (spam_key u) \<noteq> get_key rl (block_key u)"
  "get_key rl (block_key u) \<noteq> get_key rl (rate_key u)"
  "get_key rl (block_key u) \<noteq> get_key rl (activity_key u)"
  by (simp_all add: get_key_def spam_key_def rate_key_def activity_key_def block_key_def)

subsection \<open>The allowed request\<close>

text \<open>
  Claim C2, as the code has it. For every governed request (a message or callback query of
  a sender with a nonzero id, with no live block record) whose primary-window
  \<^verbatim>\<open>check_rate_limit\<close> returns \<open>allowed = True\<close>, \<^verbatim>\<open>__call__\<close> proceeds to the handler, and
  it does not touch the principal's spam key: the value stored under \<^verbatim>\<open>spam:<id>\<close> is the
  same after the request as before. (The middleware never calls \<^verbatim>\<open>increment\<close>; the spam
  key is written only by the spam-window \<^verbatim>\<open>check_rate_limit\<close> that follows a rejected
  primary check.)
\<close>

theorem allowed_request_leaves_spam_key:
  assumes "event_user_id event = Inr (Some uid)" and "uid \<noteq> 0"
    and "execute_command (t_exists clk) (EXISTS (get_key (rate_limiter mw) (block_key uid))) r
           = (Inr (Integer 0), r1)"
    and "fst (fst (check_rate_limit (rate_limiter mw) (rate_key uid) (default_limit mw)
                     (default_window mw) (t_primary clk) r1))"
  shows "fst (middleware_call mw clk event r) = Inr Handled
         \<and> keyspace (snd (middleware_call mw clk event r)) (get_key (rate_limiter mw) (spam_key uid))
             = keyspace r (get_key (rate_limiter mw) (spam_key uid))"
proof -
  let ?rl = "rate_limiter mw"
  let ?sk = "get_key ?rl (spam_key uid)"
  obtain allowed cnt rst r2 where
    P: "check_rate_limit ?rl (rate_key uid) (default_limit mw) (default_window mw) (t_primary clk) r1
          = ((allowed, cnt, rst), r2)"
    by (metis prod.exhaust)
  from assms(4) P have al: "allowed" by simp
  have mc: "middleware_call mw clk event r =
              (Inr Handled, log_activity mw uid event (t_activity clk) r2)"
    using assms(1,2,3) al by (simp add: middleware_call_def P)
  have "keyspace r1 ?sk = keyspace r ?sk"
    using execute_command_frame[of ?sk "EXISTS (get_key ?rl (block_key uid))" "t_exists clk" r] assms(3)
    by (simp add: key_names_differ)
  moreover have "keyspace r2 ?sk = keyspace r1 ?sk"
    using check_rate_limit_frame[of ?sk ?rl "rate_key uid" "default_limit mw" "default_window mw"
            "t_primary clk" r1] P
    by (simp add: key_names_differ)
  moreover have "keyspace (log_activity mw uid event (t_activity clk) r2) ?sk = keyspace r2 ?sk"
    by (rule log_activity_frame) (simp add: key_names_differ)
  ultimately show ?thesis by (simp add: mc)
qed

subsection \<open>Rejection, escalation and the block\<close>

lemma block_user_reachable:
  assumes "outage_in r = None" and "\<not> setex_invalid now (block_duration mw)"
  shows "block_user mw uid now r =
           (Inr (), r\<lparr> keyspace := (keyspace r)(get_key (rate_limiter mw) (block_key uid) \<mapsto>
                        (Str ''1'', Some (now + real_of_int (block_duration mw)))) \<rparr>)"
  using assms
  by (simp add: block_user_def execute_command_def roundtrip_def is_error_reply_def)

text \<open>
  Claim C3, as the code has it. For every governed request on a store that stays reachable:
  if no live block record exists, the primary check disallows and the spam-window check
  disallows too, then, when the configured block duration is a time to live the store
  accepts for \<^verbatim>\<open>SETEX\<close> (positive, at most 9223372036854775 seconds, and within \<open>LLONG_MAX\<close>
  milliseconds when added to the clock), the block record is written with the configured
  duration as its time to live and the request is answered as blocked, and otherwise
  \<^verbatim>\<open>ResponseError\<close> leaves \<^verbatim>\<open>__call__\<close> and the block key is as the two checks left it;
  if the primary check disallows and the spam check allows, the request is answered as
  rate-limited with the \<open>reset_time\<close> of the primary check;
  and if a live block record exists, the request is answered as blocked and the store is
  left exactly as it was: no rate-limiter call, no window counter changed.
\<close>

theorem escalation_and_block:
  assumes "event_user_id event = Inr (Some uid)" and "uid \<noteq> 0" and "outage_in r = None"
  shows "let bk = get_key (rate_limiter mw) (block_key uid);
             primary = check_rate_limit (rate_limiter mw) (rate_key uid) (default_limit mw)
                         (default_window mw) (t_primary clk) r;
             spam = check_rate_limit (rate_limiter mw) (spam_key uid) (spam_limit mw)
                      (spam_window mw) (t_spam clk) (snd primary)
         in (lookup (t_exists clk) (keyspace r) bk = None \<and> \<not> fst (fst primary) \<and>
             \<not> fst (fst spam) \<and> \<not> setex_invalid (t_block clk) (block_duration mw) \<longrightarrow>
               fst (middleware_call mw clk event r)
                 = Inr (Rejected (BlockedForHours (block_duration mw div 3600))) \<and>
               keyspace (snd (middleware_call mw clk event r)) bk
                 = Some (Str ''1'', Some (t_block clk + real_of_int (block_duration mw))))
          \<and> (lookup (t_exists clk) (keyspace r) bk = None \<and> \<not> fst (fst primary) \<and>
             \<not> fst (fst spam) \<and> setex_invalid (t_block clk) (block_duration mw) \<longrightarrow>
               middleware_call mw clk event r = (Inl ResponseError, snd spam))
          \<and> (lookup (t_exists clk) (keyspace r) bk = None \<and> \<not> fst (fst primary) \<and>
              fst (fst spam) \<longrightarrow>
               fst (middleware_call mw clk event r)
                 = Inr (Rejected (TooManyRequests (snd (snd (fst primary))))))
          \<and> (lookup (t_exists clk) (keyspace r) bk \<noteq> None \<longrightarrow>
               middleware_call mw clk event r = (Inr (Rejected TemporarilyBlocked), r))"
proof -
  let ?rl = "rate_limiter mw"
  let ?bk = "get_key ?rl (block_key uid)"
  obtain pa pc pr r2 where
    P: "check_rate_limit ?rl (rate_key uid) (default_limit mw) (default_window mw) (t_primary clk) r
          = ((pa, pc, pr), r2)"
    by (metis prod.exhaust)
  obtain sa sc sr r3 where
    S: "check_rate_limit ?rl (spam_key uid) (spam_limit mw) (spam_window mw) (t_spam clk) r2
          = ((sa, sc, sr), r3)"
    by (metis prod.exhaust)
  have up2: "outage_in r2 = None"
    using check_rate_limit_reachable[OF assms(3), of ?rl "rate_key uid" "default_limit mw"
            "default_window mw" "t_primary clk"] P by simp
  have up3: "outage_in r3 = None"
    using check_rate_limit_reachable[OF up2, of ?rl "spam_key uid" "spam_limit mw"
            "spam_window mw" "t_spam clk"] S by simp
  have B: "\<not> setex_invalid (t_block clk) (block_duration mw) \<Longrightarrow>
           block_user mw uid (t_block clk) r3 =
           (Inr (), r3\<lparr> keyspace := (keyspace r3)(?bk \<mapsto>
                        (Str ''1'', Some (t_block clk + real_of_int (block_duration mw)))) \<rparr>)"
    by (rule block_user_reachable[OF up3])
  have R: "setex_invalid (t_block clk) (block_duration mw) \<Longrightarrow>
           block_user mw uid (t_block clk) r3 = (Inl ResponseError, r3)"
    by (rule block_user_refused[OF up3])
  show ?thesis
    using assms(1,2) B R
    by (simp add: Let_def middleware_call_def exists_reachable[OF assms(3)] P S)
qed

subsection \<open>The escalation on concrete requests\<close>

lemmas redis_eval = check_rate_limit_def check_rate_limit_try_def get_remaining_def
        pipeline_execute_def execute_command_def roundtrip_def lookup_def result_at_def
        is_error_reply_def store_zset_def zset_rem_def zset_remrangebyscore_def
        zset_range_0_0_def get_key_def default_limiter_def empty_redis_def py_int_def
        expire_invalid_def setex_invalid_def mstime_def LLONG_MAX_def Let_def
lemmas mw_eval = middleware_call_def default_middleware_def strict_middleware_def at_instant_def
        block_key_def rate_key_def spam_key_def activity_key_def str_int_def str_nat.simps
        log_activity_def log_activity_try_def block_user_def truthy_str_def demo_message_def

lemma after_request_1:
  "after_request (Suc 0) =
     \<lparr> keyspace = [''rate_limit:user:7'' \<mapsto> (ZSet [(100, 100)], Some 161),
                    ''rate_limit:activity:7'' \<mapsto>
                      (Hash [(''type'', ''message''), (''data'', ''hi''), (''timestamp'', ''100.0'')],
                       Some 86500)],
       outage_in = None \<rparr>"
  by (simp add: redis_eval mw_eval)

lemma after_request_2:
  "after_request (Suc (Suc 0)) =
     \<lparr> keyspace = [''rate_limit:user:7'' \<mapsto> (ZSet [(100, 100)], Some 162),
                    ''rate_limit:activity:7'' \<mapsto>
                      (Hash [(''type'', ''message''), (''data'', ''hi''), (''timestamp'', ''100.0'')],
                       Some 86500),
                    ''rate_limit:spam:7'' \<mapsto> (ZSet [(101, 101)], Some 3702)],
       outage_in = None \<rparr>"
  unfolding after_request.simps(2)[of "Suc 0"] after_request_1
  by (simp add: redis_eval mw_eval fun_upd_twist)

lemma after_request_3:
  "after_request (Suc (Suc (Suc 0))) =
     \<lparr> keyspace = [''rate_limit:user:7'' \<mapsto> (ZSet [(100, 100)], Some 163),
                    ''rate_limit:activity:7'' \<mapsto>
                      (Hash [(''type'', ''message''), (''data'', ''hi''), (''timestamp'', ''100.0'')],
                       Some 86500),
                    ''rate_limit:spam:7'' \<mapsto> (ZSet [(101, 101)], Some 3703),
                    ''rate_limit:blocked:7'' \<mapsto> (Str ''1'', Some 3702)],
       outage_in = None \<rparr>"
  unfolding after_request.simps(2)[of "Suc (Suc 0)"] after_request_2
  by (simp add: redis_eval mw_eval fun_upd_twist)

theorem allowed_request_leaves_spam_key_witness:
  "fst (middleware_call strict_middleware (at_instant 100) demo_message empty_redis) = Inr Handled
   \<and> keyspace (after_request (Suc 0)) (get_key default_limiter (spam_key 7)) = None"
  using allowed_request_leaves_spam_key
          [of demo_message 7 "at_instant 100" strict_middleware empty_redis empty_redis]
  by (simp add: redis_eval mw_eval)

text \<open>
  Claim C2 as stated says that the spam-window counter grows by one on each allowed
  primary-window request. It does not: after an allowed request through the default
  middleware on an empty store the spam key does not exist, and \<^verbatim>\<open>get_remaining\<close> on it
  returns the full spam limit.
\<close>

theorem allowed_request_spam_counter_counterexample:
  "fst (middleware_call default_middleware (at_instant 100) demo_message empty_redis) = Inr Handled
   \<and> keyspace (snd (middleware_call default_middleware (at_instant 100) demo_message empty_redis))
        (get_key default_limiter (spam_key 7)) = None
   \<and> fst (get_remaining default_limiter (spam_key 7) 100 3600 100
            (snd (middleware_call default_middleware (at_instant 100) demo_message empty_redis)))
       = 100"
  by (simp add: redis_eval mw_eval)

theorem escalation_and_block_witness:
  "fst (middleware_call strict_middleware (at_instant 101) demo_message (after_request 1))
     = Inr (Rejected (TooManyRequests 59))
   \<and> fst (middleware_call strict_middleware (at_instant 102) demo_message (after_request 2))
     = Inr (Rejected (BlockedForHours 1))
   \<and> keyspace (after_request 3) ''rate_limit:blocked:7'' = Some (Str ''1'', Some 3702)
   \<and> middleware_call strict_middleware (at_instant 103) demo_message (after_request 3)
     = (Inr (Rejected TemporarilyBlocked), after_request 3)
   \<and> fst (middleware_call (strict_middleware\<lparr> block_duration := 9223372036854776 \<rparr>)
            (at_instant 102) demo_message (after_request 2))
     = Inl ResponseError"
proof -
  have n: "(1::nat) = Suc 0" "(2::nat) = Suc (Suc 0)" "(3::nat) = Suc (Suc (Suc 0))" by simp_all
  show ?thesis
    using escalation_and_block
            [of demo_message 7 "after_request (Suc (Suc 0))"
                "strict_middleware\<lparr> block_duration := 9223372036854776 \<rparr>" "at_instant 102"]
          escalation_and_block
            [of demo_message 7 "after_request (Suc 0)" strict_middleware "at_instant 101"]
          escalation_and_block
            [of demo_message 7 "after_request (Suc (Suc 0))" strict_middleware "at_instant 102"]
          escalation_and_block
            [of demo_message 7 "after_request (Suc (Suc (Suc 0)))" strict_middleware "at_instant 103"]
    unfolding n after_request_1 after_request_2 after_request_3
    by (simp add: redis_eval mw_eval)
qed

text \<open>
  Claim C3 as stated promises the block record and the blocked answer whenever both checks
  disallow. \<^verbatim>\<open>_block_user\<close> has no \<^verbatim>\<open>try\<close>, so a \<^verbatim>\<open>SETEX\<close> that fails ends \<^verbatim>\<open>__call__\<close> with
  an exception: no record is written and no answer is sent. Below, the third message of
  the escalation (both checks disallow it) goes through a middleware that differs from
  \<open>strict_middleware\<close> in its block duration only, which is 0: the store refuses the
  \<^verbatim>\<open>SETEX\<close> and \<^verbatim>\<open>ResponseError\<close> is raised. The same message through \<open>strict_middleware\<close>
  itself, on a store whose connection is lost after seven more round trips, that is at
  the \<^verbatim>\<open>SETEX\<close>, raises \<^verbatim>\<open>ConnectionError\<close>. The first two messages do not read the block
  duration.
\<close>

theorem escalation_block_write_fails_counterexample:
  "\<not> fst (fst (check_rate_limit default_limiter (rate_key 7) 1 60 102 (after_request 2)))
   \<and> \<not> fst (fst (check_rate_limit default_limiter (spam_key 7) 1 3600 102
                      (snd (check_rate_limit default_limiter (rate_key 7) 1 60 102
                              (after_request 2)))))
   \<and> fst (middleware_call (strict_middleware\<lparr> block_duration := 0 \<rparr>) (at_instant 102)
            demo_message (after_request 2)) = Inl ResponseError
   \<and> keyspace (snd (middleware_call (strict_middleware\<lparr> block_duration := 0 \<rparr>) (at_instant 102)
                      demo_message (after_request 2))) ''rate_limit:blocked:7'' = None
   \<and> fst (middleware_call strict_middleware (at_instant 102) demo_message
            ((after_request 2)\<lparr> outage_in := Some 7 \<rparr>)) = Inl ConnectionError
   \<and> keyspace (snd (middleware_call strict_middleware (at_instant 102) demo_message
                      ((after_request 2)\<lparr> outage_in := Some 7 \<rparr>))) ''rate_limit:blocked:7'' = None"
proof -
  have n: "(2::nat) = Suc (Suc 0)" by simp
  show ?thesis
    unfolding n after_request_2
    by (simp add: redis_eval mw_eval numeral_eq_Suc)
qed

section \<open>The signature validator\<close>

subsection \<open>Digests are ASCII\<close>

lemma hex_string_ascii: "n < 16 \<Longrightarrow> (of_char (''0123456789abcdef'' ! n) :: nat) < 128"
proof -
  assume n: "n < 16"
  have "list_all (\<lambda>c. (of_char c :: nat) < 128) ''0123456789abcdef''" by simp
  then have "\<forall>i < length ''0123456789abcdef''. (of_char (''0123456789abcdef'' ! i) :: nat) < 128"
    by (simp only: list_all_length)
  with n show ?thesis by simp
qed

lemma hex_digit_ascii: "(of_char (hex_digit (x AND 15)) :: nat) < 128"
proof -
  have "x AND 15 \<le> 15" by (rule word_and_le1)
  then have "unat (x AND 15) < 16" by (simp add: word_le_nat_alt)
  then show ?thesis unfolding hex_digit_def by (rule hex_string_ascii)
qed

lemma hex_le_word_ascii: "is_ascii (hex_le_word w)"
  by (simp add: hex_le_word_def is_ascii_def hex_digit_ascii)

lemma md5_hex_ascii: "is_ascii (md5_hex s)"
proof -
  obtain a b c d where st: "md5_blocks (le_words (md5_pad (utf8 s)))
             (0x67452301, 0xefcdab89, 0x98badcfe, 0x10325476) = (a, b, c, d)"
    by (metis prod.exhaust)
  have "is_ascii (hex_le_word a @ hex_le_word b @ hex_le_word c @ hex_le_word d)"
    using hex_le_word_ascii[of a] hex_le_word_ascii[of b] hex_le_word_ascii[of c]
          hex_le_word_ascii[of d]
    by (simp add: is_ascii_def)
  then show ?thesis by (simp add: md5_hex_def st)
qed

lemma demo_lib_ascii: "ascii_digests demo_lib"
  by (simp add: ascii_digests_def demo_lib_def md5_hex_ascii)

subsection \<open>Rejections\<close>

lemmas validate_defs = validate_def validate_yookassa_def validate_yookassa_try_def
  validate_cryptopay_def validate_panel_def validate_hmac_json_replay_try_def
  validate_freekassa_def validate_freekassa_try_def validate_tribute_def validate_tribute_try_def
  validate_stars_def validate_stars_try_def caught_def compare_digest_def

lemma lower_char_ascii: "(of_char c :: nat) < 128 \<Longrightarrow> (of_char (lower_char c) :: nat) < 128"
  by (cases c) (auto simp: lower_char_def Let_def of_char_Char horner_sum_eq_sum)

lemma lower_ascii: "is_ascii s \<Longrightarrow> is_ascii (lower s)"
  by (induction s) (auto simp: is_ascii_def lower_def lower_char_ascii)

text \<open>
  Claim C6. \<^verbatim>\<open>validate\<close> returns \<^verbatim>\<open>False\<close>, for every payload and every signature value,
  whenever the secret of the provider is not configured (missing or empty), whenever the
  lower-cased provider name is none of the six, and whenever the payload lacks a field the
  message is built from: \<^verbatim>\<open>event\<close> or \<^verbatim>\<open>object.id\<close> for \<^verbatim>\<open>yookassa\<close>, \<^verbatim>\<open>MERCHANT_ID\<close>,
  \<^verbatim>\<open>AMOUNT\<close> or \<^verbatim>\<open>MERCHANT_ORDER_ID\<close> for \<^verbatim>\<open>freekassa\<close> (the other schemes sign the whole
  body or compare a token and need no field).
\<close>

theorem validate_rejects:
  "(configured_secret v (lower provider) = None \<longrightarrow>
      \<not> validate lib v now provider payload signature)
   \<and> (lower provider \<notin> set providers \<longrightarrow> \<not> validate lib v now provider payload signature)
   \<and> (lower provider = ''yookassa'' \<and>
        (map_of payload ''event'' = None \<or>
         (\<forall>obj. map_of payload ''object'' = Some (JDict obj) \<longrightarrow> map_of obj ''id'' = None)) \<longrightarrow>
      \<not> validate lib v now provider payload signature)
   \<and> (lower provider = ''freekassa'' \<and>
        (map_of payload ''MERCHANT_ID'' = None \<or> map_of payload ''AMOUNT'' = None \<or>
         map_of payload ''MERCHANT_ORDER_ID'' = None) \<longrightarrow>
      \<not> validate lib v now provider payload signature)"
proof (intro conjI impI)
  assume "configured_secret v (lower provider) = None"
  then show "\<not> validate lib v now provider payload signature"
    by (auto simp: validate_defs Let_def)
next
  assume "lower provider \<notin> set providers"
  then show "\<not> validate lib v now provider payload signature"
    by (simp add: validate_def providers_def Let_def)
next
  assume "lower provider = ''yookassa'' \<and>
        (map_of payload ''event'' = None \<or>
         (\<forall>obj. map_of payload ''object'' = Some (JDict obj) \<longrightarrow> map_of obj ''id'' = None))"
  then show "\<not> validate lib v now provider payload signature"
    by (auto simp: validate_defs Let_def split: option.splits json.splits)
next
  assume "lower provider = ''freekassa'' \<and>
        (map_of payload ''MERCHANT_ID'' = None \<or> map_of payload ''AMOUNT'' = None \<or>
         map_of payload ''MERCHANT_ORDER_ID'' = None)"
  then show "\<not> validate lib v now provider payload signature"
    by (auto simp: validate_defs Let_def split: option.splits)
qed

subsection \<open>Replay protection\<close>


subsection \<open>Concrete webhooks\<close>

lemmas demo_eval = demo_validator_def demo_secrets_def SignatureValidator_init_def
  configured_secret_def lower_def lower_char_def

theorem validate_rejects_witness:
  "\<not> validate demo_lib (SignatureValidator_init Map.empty) 0 ''yookassa''
       [(''event'', JStr ''payment.succeeded''), (''object'', JDict [(''id'', JStr ''1'')])] ''abc''
   \<and> \<not> validate demo_lib demo_validator 0 ''paypal'' [] ''abc''
   \<and> \<not> validate demo_lib demo_validator 0 ''YooKassa'' [(''object'', JDict [(''id'', JStr ''1'')])] ''abc''
   \<and> \<not> validate demo_lib demo_validator 0 ''freekassa'' [(''AMOUNT'', JStr ''1'')] ''abc''"
  using validate_rejects
          [of "SignatureValidator_init Map.empty" "''yookassa''" demo_lib 0
              "[(''event'', JStr ''payment.succeeded''), (''object'', JDict [(''id'', JStr ''1'')])]"
              "''abc''"]
        validate_rejects [of demo_validator "''paypal''" demo_lib 0 "[]" "''abc''"]
        validate_rejects
          [of demo_validator "''YooKassa''" demo_lib 0 "[(''object'', JDict [(''id'', JStr ''1'')])]"
              "''abc''"]
        validate_rejects
          [of demo_validator "''freekassa''" demo_lib 0 "[(''AMOUNT'', JStr ''1'')]" "''abc''"]
  by (simp add: demo_eval providers_def)



subsection \<open>The round trip\<close>

lemma md5_hex_demo: "md5_hex ''1:100:secret:42'' = ''f29f7386f07b5995d4f8857a88614b0c''"
  by code_simp

text \<open>
  Claim C5, as the code has it. For each of the six providers (the provider name in any
  letter case), with the secret configured, a library whose digests are ASCII, for
  \<^verbatim>\<open>stars\<close> an ASCII token, and a payload the scheme accepts: the signature the documented
  recipe gives validates; for \<^verbatim>\<open>yookassa\<close>, \<^verbatim>\<open>cryptopay\<close>, \<^verbatim>\<open>tribute\<close>, \<^verbatim>\<open>stars\<close> and
  \<^verbatim>\<open>panel\<close> a signature validates exactly when it is the documented one, so every other
  value is rejected; for \<^verbatim>\<open>freekassa\<close> the comparison ignores letter case: a signature
  validates exactly when its lower-case form is that of the documented one, so a changed
  signature is rejected exactly when the lower-case forms differ.
\<close>

theorem documented_signature_round_trip:
  assumes known: "lower provider \<in> set providers"
    and sec: "configured_secret v (lower provider) = Some secret"
    and lib: "ascii_digests lib"
    and tok: "lower provider = ''stars'' \<longrightarrow> is_ascii secret"
    and acc: "scheme_accepts v now (lower provider) payload"
    and doc: "documented_signature lib (lower provider) secret payload = Some sig"
  shows "validate lib v now provider payload sig
         \<and> (\<forall>sig'. validate lib v now provider payload sig' \<longleftrightarrow>
                   (if lower provider = ''freekassa'' then lower sig' = lower sig else sig' = sig))"
proof -
  have h: "\<And>k m. is_ascii (hmac_sha256_hexdigest lib k m)"
    and m: "\<And>x. is_ascii (lower (md5_hexdigest lib x))"
    using lib by (simp_all add: ascii_digests_def lower_ascii)
  from known consider
      "lower provider = ''yookassa''" | "lower provider = ''cryptopay''"
    | "lower provider = ''freekassa''" | "lower provider = ''tribute''"
    | "lower provider = ''stars''" | "lower provider = ''panel''"
    by (auto simp: providers_def)
  then show ?thesis
  proof cases
    case 1
    then show ?thesis
      using sec acc doc h
      by (auto simp: validate_def validate_yookassa_def validate_yookassa_try_def caught_def
            compare_digest_def scheme_accepts_def documented_signature_def truthy_field_def
            Let_def split: option.splits json.splits)
  next
    case 2
    then show ?thesis
      using sec acc doc h
      by (auto simp: validate_def validate_cryptopay_def validate_hmac_json_replay_try_def
            caught_def compare_digest_def check_timestamp_def scheme_accepts_def
            documented_signature_def Let_def split: option.splits)
  next
    case 3
    then show ?thesis
      using sec acc doc m
      by (auto simp: validate_def validate_freekassa_def validate_freekassa_try_def caught_def
            compare_digest_def scheme_accepts_def documented_signature_def truthy_field_def
            Let_def split: option.splits)
  next
    case 4
    then show ?thesis
      using sec acc doc h
      by (auto simp: validate_def validate_tribute_def validate_tribute_try_def caught_def
            compare_digest_def documented_signature_def Let_def)
  next
    case 5
    then show ?thesis
      using sec acc doc tok
      by (auto simp: validate_def validate_stars_def validate_stars_try_def caught_def
            compare_digest_def documented_signature_def Let_def)
  next
    case 6
    then show ?thesis
      using sec acc doc h
      by (auto simp: validate_def validate_panel_def validate_hmac_json_replay_try_def
            caught_def compare_digest_def check_timestamp_def scheme_accepts_def
            documented_signature_def Let_def split: option.splits)
  qed
qed

theorem documented_signature_round_trip_witness:
  "validate demo_lib demo_validator 0 ''freekassa'' freekassa_payload
     ''f29f7386f07b5995d4f8857a88614b0c''
   \<and> \<not> validate demo_lib demo_validator 0 ''freekassa'' freekassa_payload
         ''f29f7386f07b5995d4f8857a88614b0d''
   \<and> validate demo_lib demo_validator 0 ''freekassa'' freekassa_payload
         ''f29f7386f07b5995d4f8857a88614B0C''
   \<and> validate demo_lib demo_validator 0 ''stars'' [] ''bot-token''
   \<and> \<not> validate demo_lib demo_validator 0 ''stars'' [] ''bot-tokem''"
proof -
  have fk: "validate demo_lib demo_validator 0 ''freekassa'' freekassa_payload
              ''f29f7386f07b5995d4f8857a88614b0c''
            \<and> (\<forall>sig'. validate demo_lib demo_validator 0 ''freekassa'' freekassa_payload sig' \<longleftrightarrow>
                   (if lower ''freekassa'' = ''freekassa''
                    then lower sig' = lower ''f29f7386f07b5995d4f8857a88614b0c''
                    else sig' = ''f29f7386f07b5995d4f8857a88614b0c''))"
  proof (rule documented_signature_round_trip[where secret = "''secret''"])
    show "lower ''freekassa'' \<in> set providers" by (simp add: demo_eval providers_def)
    show "configured_secret demo_validator (lower ''freekassa'') = Some ''secret''"
      by (simp add: demo_eval)
    show "ascii_digests demo_lib" by (rule demo_lib_ascii)
    show "lower ''freekassa'' = ''stars'' \<longrightarrow> is_ascii ''secret''" by (simp add: demo_eval)
    show "scheme_accepts demo_validator 0 (lower ''freekassa'') freekassa_payload"
      by (simp add: demo_eval scheme_accepts_def truthy_field_def freekassa_payload_def)
    show "documented_signature demo_lib (lower ''freekassa'') ''secret'' freekassa_payload
            = Some ''f29f7386f07b5995d4f8857a88614b0c''"
      by (simp add: demo_eval documented_signature_def freekassa_payload_def demo_lib_def
            md5_hex_demo)
  qed
  have st: "validate demo_lib demo_validator 0 ''stars'' [] ''bot-token''
            \<and> (\<forall>sig'. validate demo_lib demo_validator 0 ''stars'' [] sig' \<longleftrightarrow>
                   (if lower ''stars'' = ''freekassa'' then lower sig' = lower ''bot-token''
                    else sig' = ''bot-token''))"
  proof (rule documented_signature_round_trip[where secret = "''bot-token''"])
    show "lower ''stars'' \<in> set providers" by (simp add: demo_eval providers_def)
    show "configured_secret demo_validator (lower ''stars'') = Some ''bot-token''"
      by (simp add: demo_eval)
    show "ascii_digests demo_lib" by (rule demo_lib_ascii)
    show "lower ''stars'' = ''stars'' \<longrightarrow> is_ascii ''bot-token''"
      by (simp add: demo_eval is_ascii_def)
    show "scheme_accepts demo_validator 0 (lower ''stars'') []"
      by (simp add: demo_eval scheme_accepts_def)
    show "documented_signature demo_lib (lower ''stars'') ''bot-token'' [] = Some ''bot-token''"
      by (simp add: demo_eval documented_signature_def)
  qed
  from fk have "\<not> validate demo_lib demo_validator 0 ''freekassa'' freekassa_payload
                   ''f29f7386f07b5995d4f8857a88614b0d''"
    by (simp add: lower_def lower_char_def)
  moreover from fk have "validate demo_lib demo_validator 0 ''freekassa'' freekassa_payload
                   ''f29f7386f07b5995d4f8857a88614B0C''"
    by (simp add: lower_def lower_char_def)
  moreover from st have "\<not> validate demo_lib demo_validator 0 ''stars'' [] ''bot-tokem''"
    by (simp add: lower_def lower_char_def)
  ultimately show ?thesis using fk st by simp
qed

text \<open>
  Claim C5 as stated says that changing any single byte of the signature makes \<^verbatim>\<open>validate\<close>
  return \<^verbatim>\<open>False\<close>. \<^verbatim>\<open>validate_freekassa\<close> compares \<^verbatim>\<open>signature.lower()\<close> with the lower-cased
  digest: the MD5 signature of the notification below with its first byte changed from
  \<^verbatim>\<open>f\<close> to \<^verbatim>\<open>F\<close> still validates. And for \<^verbatim>\<open>stars\<close> a token with a non-ASCII character
  never validates, \<^verbatim>\<open>hmac.compare_digest\<close> raising \<^verbatim>\<open>TypeError\<close> on it.
\<close>

theorem freekassa_case_flip_counterexample:
  "documented_signature demo_lib ''freekassa'' ''secret'' freekassa_payload
     = Some ''f29f7386f07b5995d4f8857a88614b0c''
   \<and> ''F29f7386f07b5995d4f8857a88614b0c'' \<noteq> ''f29f7386f07b5995d4f8857a88614b0c''
   \<and> validate demo_lib demo_validator 0 ''freekassa'' freekassa_payload
         ''F29f7386f07b5995d4f8857a88614b0c''
   \<and> documented_signature demo_lib ''stars'' [CHR 0xE9] [] = Some [CHR 0xE9]
   \<and> \<not> validate demo_lib (SignatureValidator_init [''stars'' \<mapsto> [CHR 0xE9]]) 0 ''stars'' []
         [CHR 0xE9]"
  by (simp add: validate_defs demo_eval documented_signature_def freekassa_payload_def
        demo_lib_def md5_hex_demo is_ascii_def Let_def)

section \<open>The IP whitelist\<close>

subsection \<open>The default networks, parsed\<close>

lemma yookassa_networks:
  "IPv4Network_of ''185.71.76.0/27'' = Some (0xB9474C00, 27)"
  "IPv4Network_of ''185.71.77.0/27'' = Some (0xB9474D00, 27)"
  "IPv4Network_of ''77.75.153.0/25'' = Some (0x4D4B9900, 25)"
  "IPv4Network_of ''77.75.156.11'' = Some (0x4D4B9C0B, 32)"
  "IPv4Network_of ''77.75.156.35'' = Some (0x4D4B9C23, 32)"
  "IPv4Network_of ''77.75.154.128/25'' = Some (0x4D4B9A80, 25)"
  by code_simp+

lemma probe_addresses:
  "IPv4Address_of ''185.71.76.5'' = Some 0xB9474C05"
  "IPv4Address_of ''8.8.8.8'' = Some 0x08080808"
  "IPv4Network_of ''0.0.0.0/0'' = Some (0, 0)"
  "IPv4Network_of ''::/0'' = None"
  by code_simp+

lemma default_yookassa:
  "whitelists (IPWhitelist_init lib None) ''yookassa'' =
     Some {IPv4Network 0xB9474C00 27,
           IPv4Network 0xB9474D00 27,
           IPv4Network 0x4D4B9900 25,
           IPv4Network 0x4D4B9C0B 32,
           IPv4Network 0x4D4B9C23 32,
           IPv4Network 0x4D4B9A80 25}"
  by (simp add: IPWhitelist_init_def DEFAULT_WHITELISTS_def parse_ip_list_def ip_network_def
        yookassa_networks)

lemma universal_contains:
  "contains (IPv4Network 0 0) (IPv4Address a)" "contains (IPv6Network 0 0) (IPv6Address b)"
  by (simp_all add: netmask4_def netmask6_def)

subsection \<open>Membership\<close>

text \<open>
  Claim C9. \<^verbatim>\<open>is_allowed(provider, address)\<close> is true exactly when the provider has a
  whitelist, the address parses and lies inside at least one network of the provider's
  set. With the default whitelists, \<^verbatim>\<open>yookassa\<close> (configured with \<^verbatim>\<open>185.71.76.0/27\<close> among
  its six networks) allows \<^verbatim>\<open>185.71.76.5\<close> and does not allow \<^verbatim>\<open>8.8.8.8\<close>. When the
  provider's set contains the universal networks \<^verbatim>\<open>0.0.0.0/0\<close> and \<^verbatim>\<open>::/0\<close>, every address
  that parses is allowed; \<^verbatim>\<open>disable_whitelist\<close> (where \<^verbatim>\<open>::/0\<close> parses as the universal IPv6
  network) puts the provider in exactly that state, a set of two networks and no flag.
\<close>

theorem whitelist_membership:
  "(is_allowed lib wl provider ip_str \<longleftrightarrow>
      (\<exists>nets ip. whitelists wl provider = Some nets \<and> ip_address lib ip_str = Some ip \<and>
                 (\<exists>net \<in> nets. contains net ip)))
   \<and> is_allowed lib (IPWhitelist_init lib None) ''yookassa'' ''185.71.76.5''
   \<and> \<not> is_allowed lib (IPWhitelist_init lib None) ''yookassa'' ''8.8.8.8''
   \<and> (\<forall>nets. whitelists wl provider = Some nets \<and> IPv4Network 0 0 \<in> nets \<and>
              IPv6Network 0 0 \<in> nets \<longrightarrow>
          (\<forall>s ip. ip_address lib s = Some ip \<longrightarrow> is_allowed lib wl provider s))
   \<and> (IPv6Network_of lib ''::/0'' = Some (0, 0) \<longrightarrow>
          fst (disable_whitelist lib wl provider) \<and>
          whitelists (snd (disable_whitelist lib wl provider)) provider
            = Some {IPv4Network 0 0, IPv6Network 0 0} \<and>
          (\<forall>s ip. ip_address lib s = Some ip \<longrightarrow>
                  is_allowed lib (snd (disable_whitelist lib wl provider)) provider s))"
proof (intro conjI)
  show "is_allowed lib wl provider ip_str \<longleftrightarrow>
      (\<exists>nets ip. whitelists wl provider = Some nets \<and> ip_address lib ip_str = Some ip \<and>
                 (\<exists>net \<in> nets. contains net ip))"
    by (auto simp: is_allowed_def split: option.splits)
  show "is_allowed lib (IPWhitelist_init lib None) ''yookassa'' ''185.71.76.5''"
    by (simp add: is_allowed_def default_yookassa ip_address_def probe_addresses netmask4_def)
  show "\<not> is_allowed lib (IPWhitelist_init lib None) ''yookassa'' ''8.8.8.8''"
    by (simp add: is_allowed_def default_yookassa ip_address_def probe_addresses netmask4_def)
  have univ: "\<And>nets ip. IPv4Network 0 0 \<in> nets \<Longrightarrow> IPv6Network 0 0 \<in> nets \<Longrightarrow>
                \<exists>net \<in> nets. contains net ip"
    subgoal for nets ip
      using universal_contains by (cases ip) blast+
    done
  show "\<forall>nets. whitelists wl provider = Some nets \<and> IPv4Network 0 0 \<in> nets \<and>
              IPv6Network 0 0 \<in> nets \<longrightarrow>
          (\<forall>s ip. ip_address lib s = Some ip \<longrightarrow> is_allowed lib wl provider s)"
    using univ by (auto simp: is_allowed_def)
  show "IPv6Network_of lib ''::/0'' = Some (0, 0) \<longrightarrow>
          fst (disable_whitelist lib wl provider) \<and>
          whitelists (snd (disable_whitelist lib wl provider)) provider
            = Some {IPv4Network 0 0, IPv6Network 0 0} \<and>
          (\<forall>s ip. ip_address lib s = Some ip \<longrightarrow>
                  is_allowed lib (snd (disable_whitelist lib wl provider)) provider s)"
    using univ[of "{IPv4Network 0 0, IPv6Network 0 0}"]
    by (auto simp: disable_whitelist_def ip_network_def probe_addresses is_allowed_def)
qed

subsection \<open>The loopback provider\<close>

lemma panel_parses:
  "IPv4Network_of ''127.0.0.1'' = Some (0x7F000001, 32)"
  "IPv4Network_of ''::1'' = None"
  "IPv4Address_of ''::1'' = None"
  by code_simp+

lemma default_panel:
  "whitelists (IPWhitelist_init demo_v6 None) ''panel'' =
     Some {IPv4Network 0x7F000001 32, IPv6Network 1 128}"
  by (simp add: IPWhitelist_init_def DEFAULT_WHITELISTS_def parse_ip_list_def ip_network_def
        panel_parses demo_v6_def)

theorem whitelist_membership_witness:
  "is_allowed demo_v6 (IPWhitelist_init demo_v6 None) ''panel'' ''::1''
   \<and> \<not> is_allowed demo_v6 (IPWhitelist_init demo_v6 None) ''panel'' ''8.8.8.8''
   \<and> is_allowed demo_v6 (snd (disable_whitelist demo_v6 (IPWhitelist_init demo_v6 None) ''panel''))
         ''panel'' ''8.8.8.8''"
proof -
  have a: "ip_address demo_v6 ''::1'' = Some (IPv6Address 1)"
    by (simp add: ip_address_def panel_parses demo_v6_def)
  have b: "ip_address demo_v6 ''8.8.8.8'' = Some (IPv4Address 0x08080808)"
    by (simp add: ip_address_def probe_addresses)
  have c: "IPv6Network_of demo_v6 ''::/0'' = Some (0, 0)"
    by (simp add: demo_v6_def)
  have m: "netmask6 128 = - 1" "netmask4 32 = - 1"
    by (simp_all add: netmask6_def netmask4_def)
  show ?thesis
    using whitelist_membership
            [of demo_v6 "IPWhitelist_init demo_v6 None" "''panel''" "''::1''"]
          whitelist_membership
            [of demo_v6 "IPWhitelist_init demo_v6 None" "''panel''" "''8.8.8.8''"]
    by (simp add: default_panel a b c m)
qed

end
